theory Spec2Isabelle
  imports Complex_Main
begin

section \<open>JavaScript string primitives used by the handlers\<close>

text \<open>
  The server of the text adventure is embedded function by function: the repository
  (\<^verbatim>\<open>db/repo.ts\<close>), the transient stores, and the movement, interaction, combat, help and
  wizard handlers with the \<^verbatim>\<open>cmd:input\<close> dispatcher. Numbers are integers, every table is
  the list of its rows, every process-wide map is a partial function, and all of them are
  fields of one \<open>world\<close> that each operation takes and returns.

  Strings are lists of \<^typ>\<open>char\<close>. The whitespace class is the part of the class of
  \<^verbatim>\<open>String.prototype.trim\<close> and of the regular expression \<^verbatim>\<open>\s\<close> that fits one
  \<^typ>\<open>char\<close>. Lower-casing maps the ASCII capitals, as SQLite's \<^verbatim>\<open>LOWER\<close> does;
  JavaScript's \<^verbatim>\<open>toLowerCase\<close> also maps capitals outside ASCII, which no command word,
  direction or mode name contains.
\<close>

definition is_space :: "char \<Rightarrow> bool" where
  "is_space c =
     (c \<in> set [CHR 0x09, CHR 0x0A, CHR 0x0B, CHR 0x0C, CHR 0x0D, CHR 0x20, CHR 0xA0])"

definition lower_char :: "char \<Rightarrow> char" where
  "lower_char c =
     (case map_of (zip ''ABCDEFGHIJKLMNOPQRSTUVWXYZ'' ''abcdefghijklmnopqrstuvwxyz'') c of
        Some l \<Rightarrow> l
      | None \<Rightarrow> c)"

definition toLowerCase :: "string \<Rightarrow> string" where
  "toLowerCase s = map lower_char s"

definition trim :: "string \<Rightarrow> string" where
  "trim s = rev (dropWhile is_space (rev (dropWhile is_space s)))"

definition startsWith :: "string \<Rightarrow> string \<Rightarrow> bool" where
  "startsWith s p = (take (length p) s = p)"

definition substring :: "string \<Rightarrow> nat \<Rightarrow> string" where
  "substring s n = drop n s"

text \<open>\<^verbatim>\<open>s.split(/\s+/)\<close>: the pieces between maximal runs of whitespace; the empty
  string gives one empty piece, and leading or trailing whitespace gives an empty first or
  last piece.\<close>

function split_ws :: "string \<Rightarrow> string list" where
  "split_ws [] = [[]]"
| "split_ws (c # cs) =
     (if is_space c then [] # split_ws (dropWhile is_space cs)
      else (case split_ws cs of [] \<Rightarrow> [[c]] | t # ts \<Rightarrow> (c # t) # ts))"
  by pat_completeness auto
termination
  by (relation "measure length") (auto simp: length_dropWhile_le less_Suc_eq_le)

text \<open>\<^verbatim>\<open>parts.join(' ')\<close>.\<close>

fun join_space :: "string list \<Rightarrow> string" where
  "join_space [] = []"
| "join_space [p] = p"
| "join_space (p # q # ps) = p @ '' '' @ join_space (q # ps)"

text \<open>Decimal rendering of an integer inside a template literal.\<close>

definition digit_char :: "nat \<Rightarrow> char" where
  "digit_char d = ''0123456789'' ! (d mod 10)"

fun show_nat :: "nat \<Rightarrow> string" where
  "show_nat n = (if n < 10 then [digit_char n] else show_nat (n div 10) @ [digit_char (n mod 10)])"

definition show_int :: "int \<Rightarrow> string" where
  "show_int i = (if i < 0 then CHR ''-'' # show_nat (nat (- i)) else show_nat (nat i))"

text \<open>\<^verbatim>\<open>parseInt(s, 10)\<close>: leading whitespace is skipped, one sign is accepted, the
  longest run of decimal digits is read, and \<^verbatim>\<open>NaN\<close> (here \<open>None\<close>) is the result when
  there is no digit.\<close>

definition digit_val :: "char \<Rightarrow> nat option" where
  "digit_val c = map_of (zip ''0123456789'' [0, 1, 2, 3, 4, 5, 6, 7, 8, 9]) c"

definition is_digit :: "char \<Rightarrow> bool" where
  "is_digit c = (c \<in> set ''0123456789'')"

definition digits_val :: "string \<Rightarrow> nat" where
  "digits_val ds = foldl (\<lambda>acc c. 10 * acc + (case digit_val c of Some d \<Rightarrow> d | None \<Rightarrow> 0)) 0 ds"

definition parseInt :: "string \<Rightarrow> int option" where
  "parseInt s =
     (let t = dropWhile is_space s;
          neg = (case t of [] \<Rightarrow> False | c # _ \<Rightarrow> c = CHR ''-'');
          u = (case t of [] \<Rightarrow> [] | c # cs \<Rightarrow> if c = CHR ''-'' \<or> c = CHR ''+'' then cs else t);
          ds = takeWhile is_digit u
      in if ds = [] then None
         else Some (if neg then - int (digits_val ds) else int (digits_val ds)))"

section \<open>Data model (types/index.ts)\<close>

datatype user_state =
    IDLE
  | CREATING_ROOM_TITLE
  | CREATING_ROOM_DESC
  | CREATING_ROOM_MOOD
  | CREATING_ROOM_SHROUD
  | CREATING_OBJ_CONFIRM
  | CREATING_OBJ_NAME
  | CREATING_OBJ_DESC
  | CREATING_OBJ_VERB
  | CREATING_OBJ_SUCCESS_MSG
  | CREATING_OBJ_TYPE
  | CREATING_OBJ_VALUE
  | CREATING_OBJ_CONTENTS
  | CREATING_OBJ_ENEMY_STATS
  | CREATING_OBJ_REQUIREMENT
  | CREATING_OBJ_SUPPLY_TYPE
  | CREATING_OBJ_VERB_CONFIRM
  | GENERATING_ANIMATIONS
  | COMBAT

text \<open>The text stored in the \<^verbatim>\<open>state\<close> column for each mode.\<close>

fun state_name :: "user_state \<Rightarrow> string" where
  "state_name IDLE = ''IDLE''"
| "state_name CREATING_ROOM_TITLE = ''CREATING_ROOM_TITLE''"
| "state_name CREATING_ROOM_DESC = ''CREATING_ROOM_DESC''"
| "state_name CREATING_ROOM_MOOD = ''CREATING_ROOM_MOOD''"
| "state_name CREATING_ROOM_SHROUD = ''CREATING_ROOM_SHROUD''"
| "state_name CREATING_OBJ_CONFIRM = ''CREATING_OBJ_CONFIRM''"
| "state_name CREATING_OBJ_NAME = ''CREATING_OBJ_NAME''"
| "state_name CREATING_OBJ_DESC = ''CREATING_OBJ_DESC''"
| "state_name CREATING_OBJ_VERB = ''CREATING_OBJ_VERB''"
| "state_name CREATING_OBJ_SUCCESS_MSG = ''CREATING_OBJ_SUCCESS_MSG''"
| "state_name CREATING_OBJ_TYPE = ''CREATING_OBJ_TYPE''"
| "state_name CREATING_OBJ_VALUE = ''CREATING_OBJ_VALUE''"
| "state_name CREATING_OBJ_CONTENTS = ''CREATING_OBJ_CONTENTS''"
| "state_name CREATING_OBJ_ENEMY_STATS = ''CREATING_OBJ_ENEMY_STATS''"
| "state_name CREATING_OBJ_REQUIREMENT = ''CREATING_OBJ_REQUIREMENT''"
| "state_name CREATING_OBJ_SUPPLY_TYPE = ''CREATING_OBJ_SUPPLY_TYPE''"
| "state_name CREATING_OBJ_VERB_CONFIRM = ''CREATING_OBJ_VERB_CONFIRM''"
| "state_name GENERATING_ANIMATIONS = ''GENERATING_ANIMATIONS''"
| "state_name COMBAT = ''COMBAT''"

record user =
  u_id :: string
  u_handle :: string
  u_server_code :: string
  u_strength :: int
  u_hp :: int
  u_max_hp :: int
  u_gold :: int
  u_current_q :: int
  u_current_r :: int
  u_state :: user_state

record room =
  r_id :: string
  r_q :: int
  r_r :: int
  r_server_code :: string
  r_title :: string
  r_description :: string
  r_shroud_level :: int
  r_created_by :: string
  r_symbol :: "string option"

datatype effect_type = GOLD | HEAL | DAMAGE | NONE | ITEM

record item =
  i_id :: string
  i_room_id :: "string option"
  i_owner_id :: "string option"
  i_server_code :: string
  i_name :: string
  i_description :: string
  i_success_message :: string
  i_interact_verb :: string
  i_effect_type :: effect_type
  i_effect_value :: int
  i_is_hidden :: int
  i_required_item_id :: "string option"
  i_enemy_hp :: int
  i_enemy_max_hp :: int
  i_enemy_attack :: int
  i_xp_value :: int
  i_is_infinite :: bool

datatype animation_type = TAPESTRY | INTERACTION | COMBAT_DURING | COMBAT_VICTORY | COMBAT_RETREAT

record animation =
  a_id :: string
  a_room_id :: "string option"
  a_object_id :: "string option"
  a_type :: animation_type
  a_frames :: "string list"
  a_fps :: int

text \<open>Truthiness of a nullable string: \<^verbatim>\<open>null\<close> and the empty string are falsy.\<close>

fun truthy :: "string option \<Rightarrow> bool" where
  "truthy None = False"
| "truthy (Some s) = (s \<noteq> [])"

section \<open>Events pushed to a connection\<close>

text \<open>The \<^verbatim>\<open>player\<close> of a snapshot is what \<^verbatim>\<open>repo.getUser\<close> returned, which a handler
  may pass on without ever reading a field of it.\<close>

record state_update_payload =
  p_player :: "user option"
  p_room :: room
  p_visibleRooms :: "room list"
  p_roomItems :: "item list"
  p_inventory :: "item list option"

datatype log_type = Info | Error | Prompt

datatype combat_source = SrcPlayer | SrcEnemy | SrcTie

record combat_update_payload =
  playerHp :: int
  playerMaxHp :: int
  enemyHp :: int
  enemyMaxHp :: int
  playerRoll :: int
  enemyRoll :: int
  damage :: int
  source :: combat_source

datatype combat_result = Win | Loss | Retreat

datatype event =
    GameLog string log_type "string option"
  | StateUpdate state_update_payload
  | AnimationPlay animation
  | CombatUpdate combat_update_payload
  | CombatEnd combat_result "int option"

record handler_result =
  handled :: bool
  shouldEmitState :: "state_update_payload option"

section \<open>Transient stores (state/store.ts, game/combatState.ts) and the world\<close>

record temp_room_data =
  trd_title :: "string option"
  trd_description :: "string option"
  trd_mood :: "string option"
  trd_q :: int
  trd_r :: int

datatype interaction_type = FLAVOR | TREASURE | BUFF_TRAP | PICKUP | ENEMY | GATE

datatype temp_effect_type = TmpEffect effect_type | TmpCombat

record temp_item_data =
  tid_name :: "string option"
  tid_description :: "string option"
  tid_verb :: "string option"
  tid_successMessage :: "string option"
  tid_effectType :: "temp_effect_type option"
  tid_effectValue :: "int option"
  tid_interactionType :: "interaction_type option"
  tid_enemyHp :: "int option"
  tid_enemyMaxHp :: "int option"
  tid_enemyAttack :: "int option"
  tid_isInfinite :: "bool option"
  tid_xpValue :: "int option"
  tid_requiredItemId :: "string option"
  tid_requiredItemName :: "string option"
  tid_roomId :: string

text \<open>A timer handle returned by \<^verbatim>\<open>setInterval\<close>, and what the combat callback closes
  over: the socket, the id of the user who started the fight and the id of the target.\<close>

type_synonym timeout = nat

record tick_closure =
  tc_socket :: string
  tc_user_id :: string
  tc_target_id :: string

record active_battle =
  ab_userId :: string
  ab_socketId :: string
  ab_enemyId :: string
  ab_interval :: timeout

record world =
  users :: "user list"
  rooms :: "room list"
  items :: "item list"
  animations :: "animation list"
  socketUserMap :: "string \<rightharpoonup> string"
  tempRoomDataMap :: "string \<rightharpoonup> temp_room_data"
  tempItemDataMap :: "string \<rightharpoonup> temp_item_data"
  activeBattles :: "string \<rightharpoonup> timeout"
  battleData :: "string \<rightharpoonup> active_battle"
  intervals :: "timeout \<rightharpoonup> tick_closure"
  next_interval :: timeout
  outbox :: "(string \<times> event) list"

text \<open>A handler returns, throws after the effects it had so far, or never returns.\<close>

datatype js_error = ServerCodeRequired | TypeError | ConstraintError

datatype 'a outcome = Returns 'a world | Throws js_error world | Hangs

fun world_of :: "'a outcome \<Rightarrow> world option" where
  "world_of (Returns _ w) = Some w"
| "world_of (Throws _ w) = Some w"
| "world_of Hangs = None"

definition emit :: "string \<Rightarrow> event \<Rightarrow> world \<Rightarrow> world" where
  "emit sock ev w = w\<lparr>outbox := outbox w @ [(sock, ev)]\<rparr>"

definition setInterval :: "tick_closure \<Rightarrow> world \<Rightarrow> timeout \<times> world" where
  "setInterval c w =
     (next_interval w,
      w\<lparr>intervals := (intervals w)(next_interval w \<mapsto> c),
        next_interval := Suc (next_interval w)\<rparr>)"

definition clearInterval :: "timeout \<Rightarrow> world \<Rightarrow> world" where
  "clearInterval h w = w\<lparr>intervals := (intervals w)(h := None)\<rparr>"

section \<open>Repository (db/repo.ts)\<close>

text \<open>
  Each table is the list of its rows in insertion order. A \<^verbatim>\<open>SELECT ... get\<close> returns
  the first matching row, \<^verbatim>\<open>all\<close> returns the matching rows, an \<^verbatim>\<open>UPDATE\<close> rewrites
  every matching row and a \<^verbatim>\<open>DELETE\<close> drops them. The accessors that take a server
  code throw when it is empty.
\<close>

definition getUser :: "string \<Rightarrow> world \<Rightarrow> user option" where
  "getUser uid w = find (\<lambda>u. u_id u = uid) (users w)"

definition updateUserPosition :: "string \<Rightarrow> int \<Rightarrow> int \<Rightarrow> world \<Rightarrow> world" where
  "updateUserPosition uid q r w =
     w\<lparr>users := map (\<lambda>u. if u_id u = uid then u\<lparr>u_current_q := q, u_current_r := r\<rparr> else u)
                    (users w)\<rparr>"

definition updateUserState :: "string \<Rightarrow> user_state \<Rightarrow> world \<Rightarrow> world" where
  "updateUserState uid st w =
     w\<lparr>users := map (\<lambda>u. if u_id u = uid then u\<lparr>u_state := st\<rparr> else u) (users w)\<rparr>"

definition getRoom :: "int \<Rightarrow> int \<Rightarrow> string \<Rightarrow> world \<Rightarrow> js_error + room option" where
  "getRoom q r serverCode w =
     (if serverCode = [] then Inl ServerCodeRequired
      else Inr (find (\<lambda>rm. r_q rm = q \<and> r_r rm = r \<and> r_server_code rm = serverCode) (rooms w)))"

text \<open>\<^verbatim>\<open>getVisibleRooms\<close> is only called with its default radius 5.\<close>

definition getVisibleRooms :: "int \<Rightarrow> int \<Rightarrow> string \<Rightarrow> world \<Rightarrow> js_error + room list" where
  "getVisibleRooms q r serverCode w =
     (if serverCode = [] then Inl ServerCodeRequired
      else Inr (filter (\<lambda>rm. q - 5 \<le> r_q rm \<and> r_q rm \<le> q + 5 \<and> r - 5 \<le> r_r rm \<and> r_r rm \<le> r + 5
                             \<and> r_server_code rm = serverCode) (rooms w)))"

definition getRoomItems :: "string \<Rightarrow> string \<Rightarrow> world \<Rightarrow> js_error + item list" where
  "getRoomItems roomId serverCode w =
     (if serverCode = [] then Inl ServerCodeRequired
      else Inr (filter (\<lambda>i. i_room_id i = Some roomId \<and> i_owner_id i = None
                             \<and> i_server_code i = serverCode) (items w)))"

definition getItem :: "string \<Rightarrow> world \<Rightarrow> item option" where
  "getItem itemId w = find (\<lambda>i. i_id i = itemId) (items w)"

definition getItemByName :: "string \<Rightarrow> string \<Rightarrow> string \<Rightarrow> world \<Rightarrow> js_error + item option" where
  "getItemByName roomId name serverCode w =
     (if serverCode = [] then Inl ServerCodeRequired
      else Inr (find (\<lambda>i. i_room_id i = Some roomId \<and> toLowerCase (i_name i) = toLowerCase name
                           \<and> i_owner_id i = None \<and> i_server_code i = serverCode) (items w)))"

definition getUserInventory :: "string \<Rightarrow> string \<Rightarrow> world \<Rightarrow> js_error + item list" where
  "getUserInventory userId serverCode w =
     (if serverCode = [] then Inl ServerCodeRequired
      else Inr (filter (\<lambda>i. i_owner_id i = Some userId \<and> i_server_code i = serverCode) (items w)))"

text \<open>The \<^verbatim>\<open>Partial<Pick<User, 'hp' | 'max_hp' | 'gold' | 'strength'>>\<close> argument of
  \<^verbatim>\<open>updateUserStats\<close>: a field that is absent is not written.\<close>

record stats =
  s_hp :: "int option"
  s_max_hp :: "int option"
  s_gold :: "int option"
  s_strength :: "int option"

definition no_stats :: stats where
  "no_stats = \<lparr>s_hp = None, s_max_hp = None, s_gold = None, s_strength = None\<rparr>"

definition set_stats :: "stats \<Rightarrow> user \<Rightarrow> user" where
  "set_stats st u =
     u\<lparr>u_hp := (case s_hp st of None \<Rightarrow> u_hp u | Some v \<Rightarrow> v),
       u_max_hp := (case s_max_hp st of None \<Rightarrow> u_max_hp u | Some v \<Rightarrow> v),
       u_gold := (case s_gold st of None \<Rightarrow> u_gold u | Some v \<Rightarrow> v),
       u_strength := (case s_strength st of None \<Rightarrow> u_strength u | Some v \<Rightarrow> v)\<rparr>"

definition updateUserStats :: "string \<Rightarrow> stats \<Rightarrow> world \<Rightarrow> world" where
  "updateUserStats userId st w =
     w\<lparr>users := map (\<lambda>u. if u_id u = userId then set_stats st u else u) (users w)\<rparr>"

definition setItemOwner :: "string \<Rightarrow> string option \<Rightarrow> string option \<Rightarrow> world \<Rightarrow> world" where
  "setItemOwner itemId ownerId roomId w =
     w\<lparr>items := map (\<lambda>i. if i_id i = itemId then i\<lparr>i_owner_id := ownerId, i_room_id := roomId\<rparr> else i)
                    (items w)\<rparr>"

definition updateItemEnemyHp :: "string \<Rightarrow> int \<Rightarrow> world \<Rightarrow> world" where
  "updateItemEnemyHp itemId hp w =
     w\<lparr>items := map (\<lambda>i. if i_id i = itemId then i\<lparr>i_enemy_hp := hp\<rparr> else i) (items w)\<rparr>"

definition deleteItem :: "string \<Rightarrow> world \<Rightarrow> world" where
  "deleteItem itemId w =
     w\<lparr>animations := filter (\<lambda>a. a_object_id a \<noteq> Some itemId) (animations w),
       items := filter (\<lambda>i. i_id i \<noteq> itemId)
                  (map (\<lambda>i. if i_required_item_id i = Some itemId
                             then i\<lparr>i_required_item_id := None\<rparr> else i) (items w))\<rparr>"

text \<open>\<^verbatim>\<open>createItem\<close> draws a fresh UUID, here the argument \<open>new_id\<close>. Its
  \<^verbatim>\<open>INSERT\<close> lists sixteen columns and no \<^verbatim>\<open>is_infinite\<close>, so the row it reads back
  carries no such flag; a primary key that is already taken makes the insert fail.\<close>

definition createItem :: "string \<Rightarrow> item \<Rightarrow> world \<Rightarrow> js_error + (item \<times> world)" where
  "createItem new_id it w =
     (if i_server_code it = [] then Inl ServerCodeRequired
      else if new_id \<in> set (map i_id (items w)) then Inl ConstraintError
      else let row = it\<lparr>i_id := new_id, i_is_infinite := False\<rparr>
           in Inr (row, w\<lparr>items := items w @ [row]\<rparr>))"

definition getRoomAnimationByType :: "string \<Rightarrow> animation_type \<Rightarrow> world \<Rightarrow> animation option" where
  "getRoomAnimationByType roomId ty w =
     find (\<lambda>a. a_room_id a = Some roomId \<and> a_type a = ty) (animations w)"

definition getItemAnimation :: "string \<Rightarrow> animation_type \<Rightarrow> world \<Rightarrow> animation option" where
  "getItemAnimation itemId ty w =
     find (\<lambda>a. a_object_id a = Some itemId \<and> a_type a = ty) (animations w)"

text \<open>Modelled from the spec: \<^verbatim>\<open>repo.cloneItemForUser\<close>, which \<^verbatim>\<open>handleInteraction\<close>
  calls and the repository source does not define. The spec says that an infinite item is
  a template pickup that is cloned per acquiring user rather than moved, and that two
  pickups yield two independent inventory rows: the clone is a new row with a fresh id
  (the argument \<open>new_id\<close>), owned by the user and placed in no room, and the template row
  is left as it is.\<close>

definition cloneItemForUser :: "string \<Rightarrow> item \<Rightarrow> string \<Rightarrow> world \<Rightarrow> world" where
  "cloneItemForUser new_id it userId w =
     w\<lparr>items := items w @ [it\<lparr>i_id := new_id, i_room_id := None, i_owner_id := Some userId\<rparr>]\<rparr>"

section \<open>Session store (state/store.ts)\<close>

definition getSession :: "string \<Rightarrow> world \<Rightarrow> string option" where
  "getSession socketId w = socketUserMap w socketId"

definition setSession :: "string \<Rightarrow> string \<Rightarrow> world \<Rightarrow> world" where
  "setSession socketId userId w = w\<lparr>socketUserMap := (socketUserMap w)(socketId \<mapsto> userId)\<rparr>"

definition deleteSession :: "string \<Rightarrow> world \<Rightarrow> world" where
  "deleteSession socketId w =
     (let w1 = (if truthy (socketUserMap w socketId)
                then (case socketUserMap w socketId of
                        None \<Rightarrow> w
                      | Some userId \<Rightarrow>
                          w\<lparr>tempRoomDataMap := (tempRoomDataMap w)(userId := None),
                            tempItemDataMap := (tempItemDataMap w)(userId := None)\<rparr>)
                else w)
      in w1\<lparr>socketUserMap := (socketUserMap w1)(socketId := None)\<rparr>)"

definition getTempRoomData :: "string \<Rightarrow> world \<Rightarrow> temp_room_data option" where
  "getTempRoomData userId w = tempRoomDataMap w userId"

definition setTempRoomData :: "string \<Rightarrow> temp_room_data \<Rightarrow> world \<Rightarrow> world" where
  "setTempRoomData userId d w = w\<lparr>tempRoomDataMap := (tempRoomDataMap w)(userId \<mapsto> d)\<rparr>"

definition deleteTempRoomData :: "string \<Rightarrow> world \<Rightarrow> world" where
  "deleteTempRoomData userId w = w\<lparr>tempRoomDataMap := (tempRoomDataMap w)(userId := None)\<rparr>"

definition getTempItemData :: "string \<Rightarrow> world \<Rightarrow> temp_item_data option" where
  "getTempItemData userId w = tempItemDataMap w userId"

definition setTempItemData :: "string \<Rightarrow> temp_item_data \<Rightarrow> world \<Rightarrow> world" where
  "setTempItemData userId d w = w\<lparr>tempItemDataMap := (tempItemDataMap w)(userId \<mapsto> d)\<rparr>"

definition deleteTempItemData :: "string \<Rightarrow> world \<Rightarrow> world" where
  "deleteTempItemData userId w = w\<lparr>tempItemDataMap := (tempItemDataMap w)(userId := None)\<rparr>"

section \<open>Battle registry (game/combatState.ts)\<close>

definition isInCombat :: "string \<Rightarrow> world \<Rightarrow> bool" where
  "isInCombat userId w = (userId \<in> dom (activeBattles w))"

definition startBattle :: "string \<Rightarrow> string \<Rightarrow> string \<Rightarrow> timeout \<Rightarrow> world \<Rightarrow> world" where
  "startBattle userId socketId enemyId interval w =
     w\<lparr>activeBattles := (activeBattles w)(userId \<mapsto> interval),
       battleData := (battleData w)(userId \<mapsto>
          \<lparr>ab_userId = userId, ab_socketId = socketId, ab_enemyId = enemyId,
           ab_interval = interval\<rparr>)\<rparr>"

definition endBattle :: "string \<Rightarrow> world \<Rightarrow> world" where
  "endBattle userId w =
     (let w1 = (case battleData w userId of
                  None \<Rightarrow> w
                | Some battle \<Rightarrow>
                    (clearInterval (ab_interval battle) w)\<lparr>battleData := (battleData w)(userId := None)\<rparr>)
      in w1\<lparr>activeBattles := (activeBattles w1)(userId := None)\<rparr>)"

definition getBattle :: "string \<Rightarrow> world \<Rightarrow> active_battle option" where
  "getBattle userId w = battleData w userId"

section \<open>Movement (handlers/movement.ts)\<close>

datatype direction = N | S | NE | SE | NW | SW

definition parseDirection :: "string \<Rightarrow> direction option" where
  "parseDirection raw =
     (let trimmed = toLowerCase (trim raw) in
      if trimmed = [] then None
      else let parts = split_ws trimmed;
               dir0 = (case parts of [] \<Rightarrow> [] | p # _ \<Rightarrow> p);
               dir = (case parts of
                        p0 # p1 # _ \<Rightarrow> if dir0 = ''go'' \<and> p1 \<noteq> [] then p1 else dir0
                      | _ \<Rightarrow> dir0)
           in if dir = ''n'' then Some N
              else if dir = ''s'' then Some S
              else if dir = ''ne'' then Some NE
              else if dir = ''se'' then Some SE
              else if dir = ''nw'' then Some NW
              else if dir = ''sw'' then Some SW
              else None)"

fun moveAxial :: "int \<Rightarrow> int \<Rightarrow> direction \<Rightarrow> int \<times> int" where
  "moveAxial q r N = (q, r - 1)"
| "moveAxial q r S = (q, r + 1)"
| "moveAxial q r NE = (q + 1, r - 1)"
| "moveAxial q r SW = (q - 1, r + 1)"
| "moveAxial q r NW = (q - 1, r)"
| "moveAxial q r SE = (q + 1, r)"

text \<open>Sequencing inside a handler: a repository read that throws, and the first property
  access on a value that may be \<^verbatim>\<open>undefined\<close>, abort the handler with the world as it is
  at that point.\<close>

definition reading :: "js_error + 'a \<Rightarrow> world \<Rightarrow> ('a \<Rightarrow> 'b outcome) \<Rightarrow> 'b outcome" where
  "reading r w k = (case r of Inl e \<Rightarrow> Throws e w | Inr x \<Rightarrow> k x)"

definition deref :: "'a option \<Rightarrow> world \<Rightarrow> ('a \<Rightarrow> 'b outcome) \<Rightarrow> 'b outcome" where
  "deref x w k = (case x of None \<Rightarrow> Throws TypeError w | Some v \<Rightarrow> k v)"

text \<open>A room that is absent, or whose id marks the synthesized void, is no room to the
  handlers: \<^verbatim>\<open>!currentRoom || currentRoom.id.startsWith('void-')\<close>.\<close>

definition real_room :: "room option \<Rightarrow> room option" where
  "real_room roomOpt =
     (case roomOpt of
        None \<Rightarrow> None
      | Some r \<Rightarrow> if startsWith (r_id r) ''void-'' then None else Some r)"

definition sendRoomTapestry :: "string \<Rightarrow> string \<Rightarrow> world \<Rightarrow> world" where
  "sendRoomTapestry sock roomId w =
     (case getRoomAnimationByType roomId TAPESTRY w of
        None \<Rightarrow> w
      | Some tapestry \<Rightarrow> emit sock (AnimationPlay tapestry) w)"

definition voidRoom :: "user \<Rightarrow> int \<Rightarrow> int \<Rightarrow> room" where
  "voidRoom usr newQ newR =
     \<lparr>r_id = ''void-'' @ show_int newQ @ '','' @ show_int newR,
      r_q = newQ, r_r = newR, r_server_code = u_server_code usr,
      r_title = ''Unknown Wilds'',
      r_description = ''You are the first to wander here.'',
      r_shroud_level = 0, r_created_by = u_id usr, r_symbol = None\<rparr>"

definition handleMove :: "string \<Rightarrow> user \<Rightarrow> string \<Rightarrow> world \<Rightarrow> handler_result outcome" where
  "handleMove sock usr input w =
     (if u_state usr \<noteq> IDLE
      then Returns \<lparr>handled = True, shouldEmitState = None\<rparr>
             (emit sock (GameLog (''Cannot move while in '' @ state_name (u_state usr) @ '' state.'')
                           Error None) w)
      else case parseDirection input of
        None \<Rightarrow> Returns \<lparr>handled = False, shouldEmitState = None\<rparr> w
      | Some dir \<Rightarrow>
          (case moveAxial (u_current_q usr) (u_current_r usr) dir of (newQ, newR) \<Rightarrow>
           let w1 = updateUserPosition (u_id usr) newQ newR w;
               serverCode = u_server_code usr
           in reading (getRoom newQ newR serverCode w1) w1 (\<lambda>existingRoom.
              case existingRoom of
                None \<Rightarrow>
                  (let w2 = updateUserState (u_id usr) CREATING_ROOM_TITLE w1;
                       w3 = setTempRoomData (u_id usr)
                              \<lparr>trd_title = None, trd_description = None, trd_mood = None,
                               trd_q = newQ, trd_r = newR\<rparr> w2;
                       w4 = emit sock (GameLog ''What is this place called?'' Prompt
                                         (Some ''QUESTION'')) w3
                   in deref (getUser (u_id usr) w4) w4 (\<lambda>updatedUser.
                      reading (getVisibleRooms (u_current_q updatedUser) (u_current_r updatedUser)
                                 serverCode w4) w4 (\<lambda>visibleRooms.
                      Returns \<lparr>handled = True,
                               shouldEmitState = Some
                                 \<lparr>p_player = Some updatedUser, p_room = voidRoom usr newQ newR,
                                  p_visibleRooms = visibleRooms, p_roomItems = [],
                                  p_inventory = None\<rparr>\<rparr> w4)))
              | Some existing \<Rightarrow>
                  deref (getUser (u_id usr) w1) w1 (\<lambda>updatedUser.
                  reading (getVisibleRooms (u_current_q updatedUser) (u_current_r updatedUser)
                             serverCode w1) w1 (\<lambda>visibleRooms.
                  reading (getRoomItems (r_id existing) serverCode w1) w1 (\<lambda>roomItems.
                  reading (getUserInventory (u_id usr) serverCode w1) w1 (\<lambda>inventory.
                  let w2 = sendRoomTapestry sock (r_id existing) w1
                  in Returns \<lparr>handled = True,
                              shouldEmitState = Some
                                \<lparr>p_player = Some updatedUser, p_room = existing,
                                 p_visibleRooms = visibleRooms, p_roomItems = roomItems,
                                 p_inventory = Some inventory\<rparr>\<rparr> w2)))))))"

section \<open>Generic interaction (handlers/interaction.ts)\<close>

text \<open>The tail of \<^verbatim>\<open>handleInteraction\<close> after the effect: the interaction animation, the
  success message and the state snapshot.\<close>

definition interaction_finish ::
  "string \<Rightarrow> user \<Rightarrow> room \<Rightarrow> item \<Rightarrow> string \<Rightarrow> world \<Rightarrow> handler_result outcome" where
  "interaction_finish sock usr currentRoom it successMessage w =
     (let serverCode = u_server_code usr;
          w1 = (case getItemAnimation (i_id it) INTERACTION w of
                  None \<Rightarrow> w
                | Some interactionAnimation \<Rightarrow> emit sock (AnimationPlay interactionAnimation) w);
          w2 = emit sock (GameLog (if i_success_message it = [] then successMessage
                                   else i_success_message it) Info None) w1
      in deref (getUser (u_id usr) w2) w2 (\<lambda>updatedUser.
         reading (getVisibleRooms (u_current_q updatedUser) (u_current_r updatedUser)
                    serverCode w2) w2 (\<lambda>visibleRooms.
         reading (getRoomItems (r_id currentRoom) serverCode w2) w2 (\<lambda>roomItems.
         reading (getUserInventory (u_id usr) serverCode w2) w2 (\<lambda>inventory.
         Returns \<lparr>handled = True,
                  shouldEmitState = Some
                    \<lparr>p_player = Some updatedUser, p_room = currentRoom,
                     p_visibleRooms = visibleRooms, p_roomItems = roomItems,
                     p_inventory = Some inventory\<rparr>\<rparr> w2)))))"

text \<open>The \<^verbatim>\<open>switch (item.effect_type)\<close> of \<^verbatim>\<open>handleInteraction\<close>, for the resolved
  item \<open>it\<close>; \<open>new_id\<close> is the identifier a clone would receive.\<close>

definition interaction_effect ::
  "string \<Rightarrow> user \<Rightarrow> room \<Rightarrow> string \<Rightarrow> item \<Rightarrow> string \<Rightarrow> world \<Rightarrow> handler_result outcome" where
  "interaction_effect sock usr currentRoom verb it new_id w =
     (case i_effect_type it of
        GOLD \<Rightarrow>
          deref (getUser (u_id usr) w) w (\<lambda>updatedUser.
          let newGold = u_gold updatedUser + i_effect_value it;
              w1 = updateUserStats (u_id usr) (no_stats\<lparr>s_gold := Some newGold\<rparr>) w
          in interaction_finish sock usr currentRoom it
               (''You gained '' @ show_int (i_effect_value it) @ '' gold!'') w1)
      | HEAL \<Rightarrow>
          deref (getUser (u_id usr) w) w (\<lambda>updatedUser.
          let newHp = min (u_max_hp updatedUser) (u_hp updatedUser + i_effect_value it);
              w1 = updateUserStats (u_id usr) (no_stats\<lparr>s_hp := Some newHp\<rparr>) w
          in interaction_finish sock usr currentRoom it
               (''You recovered '' @ show_int (newHp - u_hp updatedUser) @ '' HP!'') w1)
      | DAMAGE \<Rightarrow>
          deref (getUser (u_id usr) w) w (\<lambda>updatedUser.
          let damagedHp = max 0 (u_hp updatedUser - i_effect_value it);
              w1 = updateUserStats (u_id usr) (no_stats\<lparr>s_hp := Some damagedHp\<rparr>) w;
              w2 = (if damagedHp = 0
                    then emit sock (GameLog ''You have been defeated!'' Error None) w1 else w1)
          in interaction_finish sock usr currentRoom it
               (''You took '' @ show_int (i_effect_value it) @ '' damage!'') w2)
      | ITEM \<Rightarrow>
          if truthy (i_room_id it)
          then (if i_is_infinite it
                then interaction_finish sock usr currentRoom it
                       (''You picked up the '' @ i_name it @ ''.'')
                       (cloneItemForUser new_id it (u_id usr) w)
                else interaction_finish sock usr currentRoom it
                       (''You picked up the '' @ i_name it @ ''.'')
                       (setItemOwner (i_id it) (Some (u_id usr)) None w))
          else Returns \<lparr>handled = True, shouldEmitState = None\<rparr>
                 (emit sock (GameLog (''You already have the '' @ i_name it @ ''.'') Error None) w)
      | NONE \<Rightarrow>
          interaction_finish sock usr currentRoom it
            (''You '' @ verb @ '' the '' @ i_name it @ ''.'') w)"

text \<open>The required-item check of \<^verbatim>\<open>handleInteraction\<close>.\<close>

definition interaction_gate ::
  "string \<Rightarrow> user \<Rightarrow> room \<Rightarrow> string \<Rightarrow> item \<Rightarrow> string \<Rightarrow> world \<Rightarrow> handler_result outcome" where
  "interaction_gate sock usr currentRoom verb it new_id w =
     (let serverCode = u_server_code usr in
      if truthy (i_required_item_id it)
      then reading (getUserInventory (u_id usr) serverCode w) w (\<lambda>inventory.
           if list_ex (\<lambda>invItem. Some (i_id invItem) = i_required_item_id it) inventory
           then interaction_effect sock usr currentRoom verb it new_id w
           else reading (getRoomItems (r_id currentRoom) serverCode w) w (\<lambda>roomItems.
                let allItems = roomItems @ inventory;
                    hint = (case find (\<lambda>i. Some (i_id i) = i_required_item_id it) allItems of
                              None \<Rightarrow> []
                            | Some requiredItem \<Rightarrow> '' (You need a '' @ i_name requiredItem @ '')'')
                in Returns \<lparr>handled = True, shouldEmitState = None\<rparr>
                     (emit sock (GameLog (''You need a specific item to do that.'' @ hint)
                                   Error None) w)))
      else interaction_effect sock usr currentRoom verb it new_id w)"

text \<open>Target resolution of \<^verbatim>\<open>handleInteraction\<close>: the room first, then the inventory.\<close>

definition resolve_item :: "user \<Rightarrow> room \<Rightarrow> string \<Rightarrow> world \<Rightarrow> js_error + item option" where
  "resolve_item usr currentRoom objectName w =
     (case getItemByName (r_id currentRoom) objectName (u_server_code usr) w of
        Inl e \<Rightarrow> Inl e
      | Inr (Some i) \<Rightarrow> Inr (Some i)
      | Inr None \<Rightarrow>
          (case getUserInventory (u_id usr) (u_server_code usr) w of
             Inl e \<Rightarrow> Inl e
           | Inr inventory \<Rightarrow>
               Inr (find (\<lambda>invItem. toLowerCase (i_name invItem) = toLowerCase objectName)
                      inventory)))"

definition handleInteraction ::
  "string \<Rightarrow> user \<Rightarrow> string \<Rightarrow> string \<Rightarrow> world \<Rightarrow> handler_result outcome" where
  "handleInteraction sock usr command new_id w =
     (case split_ws (trim command) of
        [] \<Rightarrow> Returns \<lparr>handled = False, shouldEmitState = None\<rparr> w
      | p0 # rest \<Rightarrow>
          if rest = [] \<or> p0 = [] then Returns \<lparr>handled = False, shouldEmitState = None\<rparr> w
          else let verb = toLowerCase p0 in
          if verb \<in> set [''go'', ''help''] then Returns \<lparr>handled = False, shouldEmitState = None\<rparr> w
          else let objectName = join_space rest in
          reading (getRoom (u_current_q usr) (u_current_r usr) (u_server_code usr) w) w
            (\<lambda>roomOpt.
             case real_room roomOpt of
               None \<Rightarrow> Returns \<lparr>handled = True, shouldEmitState = None\<rparr>
                         (emit sock (GameLog ''You are not in a valid room.'' Error None) w)
             | Some currentRoom \<Rightarrow>
                 reading (resolve_item usr currentRoom objectName w) w (\<lambda>resolved.
                 case resolved of
                   None \<Rightarrow> Returns \<lparr>handled = True, shouldEmitState = None\<rparr>
                             (emit sock (GameLog (''You don't see \"'' @ objectName @ ''\" here.'')
                                           Error None) w)
                 | Some it \<Rightarrow>
                     if toLowerCase (i_interact_verb it) = verb
                     then interaction_gate sock usr currentRoom verb it new_id w
                     else Returns \<lparr>handled = True, shouldEmitState = None\<rparr>
                            (emit sock (GameLog (''You can't '' @ verb @ '' the '' @ i_name it @ ''.'')
                                          Error None) w))))"

section \<open>Combat (handlers/combat.ts)\<close>

definition handlePlayerDeath :: "user \<Rightarrow> string \<Rightarrow> world \<Rightarrow> unit outcome" where
  "handlePlayerDeath usr sock w =
     (let w1 = emit sock (GameLog ''You have fallen. The world fades...'' Error None) w;
          w2 = updateUserStats (u_id usr) (no_stats\<lparr>s_hp := Some (u_max_hp usr)\<rparr>) w1;
          w3 = updateUserPosition (u_id usr) 0 0 w2;
          w4 = updateUserState (u_id usr) IDLE w3;
          updatedUser = getUser (u_id usr) w4;
          serverCode = u_server_code usr
      in reading (getRoom 0 0 serverCode w4) w4 (\<lambda>genesisRoom.
         reading (getVisibleRooms 0 0 serverCode w4) w4 (\<lambda>visibleRooms.
         deref genesisRoom w4 (\<lambda>genesis.
         reading (getRoomItems (r_id genesis) serverCode w4) w4 (\<lambda>roomItems.
         reading (getUserInventory (u_id usr) serverCode w4) w4 (\<lambda>inventory.
         let w5 = emit sock (StateUpdate
                    \<lparr>p_player = updatedUser, p_room = genesis, p_visibleRooms = visibleRooms,
                     p_roomItems = roomItems, p_inventory = Some inventory\<rparr>) w4;
             w6 = emit sock (GameLog (''You awaken at The Crash Site. You have ''
                                      @ show_int (u_gold usr) @ '' gold remaining.'') Info None) w5
         in Returns () w6))))))"

text \<open>\<^verbatim>\<open>Math.ceil(delta / 2)\<close> for an integer \<open>delta\<close>.\<close>

definition ceil_half :: "int \<Rightarrow> int" where
  "ceil_half delta = - ((- delta) div 2)"

text \<open>The RESOLVE phase of a combat tick: the damage, its source and the one store
  write of the side that lost the roll.\<close>

definition resolve_rolls ::
  "user \<Rightarrow> item \<Rightarrow> int \<Rightarrow> int \<Rightarrow> world \<Rightarrow> (int \<times> combat_source) \<times> world" where
  "resolve_rolls currentUser currentEnemy pRoll eRoll w =
     (let delta = \<bar>pRoll - eRoll\<bar> in
      if pRoll > eRoll
      then (let dmg = ceil_half delta + 1;
                newEnemyHp = max 0 (i_enemy_hp currentEnemy - dmg)
            in ((dmg, SrcPlayer), updateItemEnemyHp (i_id currentEnemy) newEnemyHp w))
      else if eRoll > pRoll
      then (let dmg = ceil_half delta;
                newPlayerHp = max 0 (u_hp currentUser - dmg)
            in ((dmg, SrcEnemy),
                updateUserStats (u_id currentUser) (no_stats\<lparr>s_hp := Some newPlayerHp\<rparr>) w))
      else ((0, SrcTie), w))"

text \<open>The VICTORY branch of the outcome check.\<close>

definition tick_victory ::
  "string \<Rightarrow> string \<Rightarrow> timeout \<Rightarrow> item \<Rightarrow> user \<Rightarrow> world \<Rightarrow> unit outcome" where
  "tick_victory sock uid interval currentEnemy updatedUser w =
     (let w1 = endBattle uid (clearInterval interval w);
          xpReward = (if i_xp_value currentEnemy = 0 then 10 else i_xp_value currentEnemy);
          w2 = emit sock (GameLog (''You defeated the '' @ i_name currentEnemy @ ''! Gained ''
                                   @ show_int xpReward @ '' gold.'') Info None) w1;
          newGold = u_gold updatedUser + xpReward;
          w3 = updateUserStats uid (no_stats\<lparr>s_gold := Some newGold\<rparr>) w2;
          w4 = deleteItem (i_id currentEnemy) w3;
          w5 = updateUserState uid IDLE w4;
          w6 = emit sock (CombatEnd Win (Some xpReward)) w5
      in deref (getUser uid w6) w6 (\<lambda>finalUser.
         reading (getRoom (u_current_q finalUser) (u_current_r finalUser)
                    (u_server_code finalUser) w6) w6 (\<lambda>finalRoomOpt.
         reading (getVisibleRooms (u_current_q finalUser) (u_current_r finalUser)
                    (u_server_code finalUser) w6) w6 (\<lambda>finalVisibleRooms.
         deref finalRoomOpt w6 (\<lambda>finalRoom.
         reading (getRoomItems (r_id finalRoom) (u_server_code finalUser) w6) w6 (\<lambda>finalRoomItems.
         reading (getUserInventory uid (u_server_code finalUser) w6) w6 (\<lambda>inventory.
         Returns () (emit sock (StateUpdate
                      \<lparr>p_player = Some finalUser, p_room = finalRoom,
                       p_visibleRooms = finalVisibleRooms, p_roomItems = finalRoomItems,
                       p_inventory = Some inventory\<rparr>) w6))))))))"

text \<open>The DEFEAT branch of the outcome check.\<close>

definition tick_defeat :: "string \<Rightarrow> string \<Rightarrow> timeout \<Rightarrow> user \<Rightarrow> world \<Rightarrow> unit outcome" where
  "tick_defeat sock uid interval updatedUser w =
     (let w1 = endBattle uid (clearInterval interval w);
          w2 = emit sock (CombatEnd Loss None) w1
      in handlePlayerDeath updatedUser sock w2)"

text \<open>The ROLL, RESOLVE, EMIT and CHECK phases of a tick, once the user and the living
  enemy have been fetched. \<open>d1\<close> and \<open>d2\<close> are the values of the two expressions
  \<^verbatim>\<open>Math.floor(Math.random() * 6) + 1\<close>.\<close>

definition tick_fight ::
  "string \<Rightarrow> string \<Rightarrow> timeout \<Rightarrow> user \<Rightarrow> item \<Rightarrow> int \<Rightarrow> int \<Rightarrow> world \<Rightarrow> unit outcome" where
  "tick_fight sock uid interval currentUser currentEnemy d1 d2 w =
     (let pRoll = d1 + u_strength currentUser;
          eRoll = d2 + i_enemy_attack currentEnemy
      in case resolve_rolls currentUser currentEnemy pRoll eRoll w of ((dmg, src), w1) \<Rightarrow>
         let updatedEnemy = getItem (i_id currentEnemy) w1
         in deref (getUser uid w1) w1 (\<lambda>updatedUser.
            let w2 = emit sock (CombatUpdate
                       \<lparr>playerHp = u_hp updatedUser, playerMaxHp = u_max_hp updatedUser,
                        enemyHp = (case updatedEnemy of None \<Rightarrow> 0 | Some e \<Rightarrow> i_enemy_hp e),
                        enemyMaxHp = (case updatedEnemy of None \<Rightarrow> 0 | Some e \<Rightarrow> i_enemy_max_hp e),
                        playerRoll = pRoll, enemyRoll = eRoll, damage = dmg, source = src\<rparr>) w1
            in if (case updatedEnemy of None \<Rightarrow> False | Some e \<Rightarrow> i_enemy_hp e \<le> 0)
               then tick_victory sock uid interval currentEnemy updatedUser w2
               else if u_hp updatedUser \<le> 0
               then tick_defeat sock uid interval updatedUser w2
               else Returns () w2))"

text \<open>The callback that \<^verbatim>\<open>handleFight\<close> passes to \<^verbatim>\<open>setInterval\<close>.\<close>

definition combat_tick ::
  "string \<Rightarrow> string \<Rightarrow> string \<Rightarrow> timeout \<Rightarrow> int \<Rightarrow> int \<Rightarrow> world \<Rightarrow> unit outcome" where
  "combat_tick sock uid targetId interval d1 d2 w =
     (case getUser uid w of
        None \<Rightarrow> Returns () (endBattle uid (clearInterval interval w))
      | Some currentUser \<Rightarrow>
          reading (getRoom (u_current_q currentUser) (u_current_r currentUser)
                     (u_server_code currentUser) w) w (\<lambda>roomOpt.
          case roomOpt of
            None \<Rightarrow> Returns () (endBattle uid (clearInterval interval w))
          | Some currentRoom \<Rightarrow>
              reading (getRoomItems (r_id currentRoom) (u_server_code currentUser) w) w
                (\<lambda>currentRoomItems.
                 case find (\<lambda>i. i_id i = targetId) currentRoomItems of
                   None \<Rightarrow> Returns ()
                             (updateUserState uid IDLE (endBattle uid (clearInterval interval w)))
                 | Some currentEnemy \<Rightarrow>
                     if i_enemy_hp currentEnemy = 0 \<or> i_enemy_hp currentEnemy \<le> 0
                     then Returns ()
                            (updateUserState uid IDLE (endBattle uid (clearInterval interval w)))
                     else tick_fight sock uid interval currentUser currentEnemy d1 d2 w)))"

text \<open>A timer that has been cleared never runs its callback again; a live one runs it.\<close>

definition fire_interval :: "timeout \<Rightarrow> int \<Rightarrow> int \<Rightarrow> world \<Rightarrow> unit outcome" where
  "fire_interval h d1 d2 w =
     (case intervals w h of
        None \<Rightarrow> Returns () w
      | Some c \<Rightarrow> combat_tick (tc_socket c) (tc_user_id c) (tc_target_id c) h d1 d2 w)"

definition handleFight :: "string \<Rightarrow> user \<Rightarrow> string \<Rightarrow> world \<Rightarrow> handler_result outcome" where
  "handleFight sock usr targetName w =
     (if isInCombat (u_id usr) w
      then Returns \<lparr>handled = True, shouldEmitState = None\<rparr>
             (emit sock (GameLog ''You are already in combat! Use \"retreat\" to escape.''
                           Error None) w)
      else if u_state usr \<noteq> IDLE \<and> u_state usr \<noteq> COMBAT
      then Returns \<lparr>handled = True, shouldEmitState = None\<rparr>
             (emit sock (GameLog (''Cannot fight while in '' @ state_name (u_state usr) @ '' state.'')
                           Error None) w)
      else reading (getRoom (u_current_q usr) (u_current_r usr) (u_server_code usr) w) w
        (\<lambda>roomOpt.
         case real_room roomOpt of
           None \<Rightarrow> Returns \<lparr>handled = True, shouldEmitState = None\<rparr>
                     (emit sock (GameLog
                        ''You are in undefined space. There is nothing to fight here.''
                        Error None) w)
         | Some currentRoom \<Rightarrow>
             reading (getRoomItems (r_id currentRoom) (u_server_code usr) w) w (\<lambda>roomItems.
             case find (\<lambda>it. toLowerCase (i_name it) = toLowerCase targetName) roomItems of
               None \<Rightarrow> Returns \<lparr>handled = True, shouldEmitState = None\<rparr>
                         (emit sock (GameLog (''You don't see \"'' @ targetName @ ''\" here.'')
                                       Error None) w)
             | Some target \<Rightarrow>
                 if i_enemy_hp target = 0 \<or> i_enemy_hp target \<le> 0
                 then Returns \<lparr>handled = True, shouldEmitState = None\<rparr>
                        (emit sock (GameLog ''That is peaceful.'' Info None) w)
                 else (let w1 = updateUserState (u_id usr) COMBAT w;
                           w2 = emit sock (GameLog (''Combat begins with '' @ i_name target @ ''!'')
                                             Info None) w1
                       in case setInterval \<lparr>tc_socket = sock, tc_user_id = u_id usr,
                                            tc_target_id = i_id target\<rparr> w2 of
                            (interval, w3) \<Rightarrow>
                              Returns \<lparr>handled = True, shouldEmitState = None\<rparr>
                                (startBattle (u_id usr) sock (i_id target) interval w3)))))"

definition handleRetreat :: "string \<Rightarrow> user \<Rightarrow> world \<Rightarrow> handler_result outcome" where
  "handleRetreat sock usr w =
     (if isInCombat (u_id usr) w
      then (let w1 = endBattle (u_id usr) w;
                w2 = updateUserState (u_id usr) IDLE w1;
                w3 = emit sock (CombatEnd Retreat None) w2;
                w4 = emit sock (GameLog ''You escaped with your life.'' Info None) w3;
                updatedUser = getUser (u_id usr) w4;
                serverCode = u_server_code usr
            in reading (getRoom (u_current_q usr) (u_current_r usr) serverCode w4) w4
                 (\<lambda>updatedRoomOpt.
               reading (getVisibleRooms (u_current_q usr) (u_current_r usr) serverCode w4) w4
                 (\<lambda>updatedVisibleRooms.
               deref updatedRoomOpt w4 (\<lambda>updatedRoom.
               reading (getRoomItems (r_id updatedRoom) serverCode w4) w4 (\<lambda>updatedRoomItems.
               reading (getUserInventory (u_id usr) serverCode w4) w4 (\<lambda>inventory.
               Returns \<lparr>handled = True,
                        shouldEmitState = Some
                          \<lparr>p_player = updatedUser, p_room = updatedRoom,
                           p_visibleRooms = updatedVisibleRooms, p_roomItems = updatedRoomItems,
                           p_inventory = Some inventory\<rparr>\<rparr> w4))))))
      else Returns \<lparr>handled = True, shouldEmitState = None\<rparr>
             (emit sock (GameLog ''You are not in combat.'' Error None) w))"

section \<open>Help and look (handlers/general.ts)\<close>

text \<open>
  \<^verbatim>\<open>Math.random\<close> is an oracle \<open>rnd\<close>: the \<open>k\<close>-th evaluation of
  \<^verbatim>\<open>Math.floor(Math.random() * n)\<close> yields \<open>rnd k mod n\<close> (and 0 when \<open>n\<close> is 0), so every
  sequence of indices below \<open>n\<close> is the behaviour of some oracle. The \<^verbatim>\<open>Set\<close> of indices is
  a duplicate-free list. The \<^verbatim>\<open>while\<close> loop may run forever: it is a partial function,
  and \<open>None\<close> is the run that never leaves the loop.
\<close>

definition random_index :: "(nat \<Rightarrow> nat) \<Rightarrow> nat \<Rightarrow> nat \<Rightarrow> nat" where
  "random_index rnd k n = (if n = 0 then 0 else rnd k mod n)"

definition char_at :: "string \<Rightarrow> nat \<Rightarrow> char option" where
  "char_at chars idx = (if idx < length chars then Some (chars ! idx) else None)"

partial_function (option) obfuscate_loop ::
  "(nat \<Rightarrow> nat) \<Rightarrow> string \<Rightarrow> int \<Rightarrow> nat \<Rightarrow> nat list \<Rightarrow> (nat list \<times> nat) option" where
  "obfuscate_loop rnd chars numToHide k indices =
     (if int (length indices) < numToHide
      then (let idx = random_index rnd k (length chars)
            in obfuscate_loop rnd chars numToHide (Suc k)
                 (if char_at chars idx = Some CHR '' '' then indices else List.insert idx indices))
      else Some (indices, k))"

text \<open>\<open>obfuscateText rnd k text shroudLevel\<close> starts at the \<open>k\<close>-th draw of the oracle and
  returns the obfuscated text with the number of the next draw.\<close>

definition obfuscateText :: "(nat \<Rightarrow> nat) \<Rightarrow> nat \<Rightarrow> string \<Rightarrow> int \<Rightarrow> (string \<times> nat) option" where
  "obfuscateText rnd k text shroudLevel =
     (if shroudLevel = 0 then Some (text, k)
      else let chars = text;
               numToHide = min shroudLevel (int (length chars div 2))
           in (case obfuscate_loop rnd chars numToHide k [] of
                 None \<Rightarrow> None
               | Some (indices, k') \<Rightarrow>
                   Some (foldl (\<lambda>cs idx. cs[idx := CHR ''_'']) chars indices, k')))"

text \<open>\<^verbatim>\<open>verbs.map((verb) => obfuscateText(verb, currentRoom.shroud_level))\<close>.\<close>

fun obfuscate_verbs :: "(nat \<Rightarrow> nat) \<Rightarrow> nat \<Rightarrow> string list \<Rightarrow> int \<Rightarrow> string list option" where
  "obfuscate_verbs rnd k [] lvl = Some []"
| "obfuscate_verbs rnd k (v # vs) lvl =
     (case obfuscateText rnd k v lvl of
        None \<Rightarrow> None
      | Some (t, k') \<Rightarrow>
          (case obfuscate_verbs rnd k' vs lvl of
             None \<Rightarrow> None
           | Some ts \<Rightarrow> Some (t # ts)))"

text \<open>\<^verbatim>\<open>parts.join(', ')\<close>.\<close>

fun join_comma :: "string list \<Rightarrow> string" where
  "join_comma [] = []"
| "join_comma [p] = p"
| "join_comma (p # q # ps) = p @ '', '' @ join_comma (q # ps)"

definition handleHelp :: "(nat \<Rightarrow> nat) \<Rightarrow> string \<Rightarrow> user \<Rightarrow> world \<Rightarrow> unit outcome" where
  "handleHelp rnd sock usr w =
     reading (getRoom (u_current_q usr) (u_current_r usr) (u_server_code usr) w) w (\<lambda>roomOpt.
     case real_room roomOpt of
       None \<Rightarrow> Returns () (emit sock (GameLog ''You are in undefined space. No objects here.''
                                       Info None) w)
     | Some currentRoom \<Rightarrow>
         reading (getRoomItems (r_id currentRoom) (u_server_code usr) w) w (\<lambda>its.
         let verbs = map i_interact_verb its in
         if verbs = []
         then Returns () (emit sock (GameLog ''No objects in this room.'' Info None) w)
         else (case obfuscate_verbs rnd 0 verbs (r_shroud_level currentRoom) of
                 None \<Rightarrow> Hangs
               | Some shroudedVerbs \<Rightarrow>
                   Returns () (emit sock (GameLog (''Verbs: '' @ join_comma shroudedVerbs)
                                            Info None) w))))"

definition handleLook :: "string \<Rightarrow> user \<Rightarrow> string \<Rightarrow> world \<Rightarrow> unit outcome" where
  "handleLook sock usr target w =
     reading (getRoom (u_current_q usr) (u_current_r usr) (u_server_code usr) w) w (\<lambda>roomOpt.
     case real_room roomOpt of
       None \<Rightarrow> Returns () (emit sock (GameLog ''You are in undefined space.'' Info None) w)
     | Some currentRoom \<Rightarrow>
         if target = [] \<or> trim target = []
         then Returns () (emit sock (GameLog (r_description currentRoom) Info None)
                           (emit sock (GameLog (r_title currentRoom) Info None) w))
         else reading (getRoomItems (r_id currentRoom) (u_server_code usr) w) w (\<lambda>roomItems.
              reading (case find (\<lambda>i. toLowerCase (i_name i) = toLowerCase (trim target)) roomItems of
                         Some i \<Rightarrow> Inr (Some i)
                       | None \<Rightarrow>
                           (case getUserInventory (u_id usr) (u_server_code usr) w of
                              Inl e \<Rightarrow> Inl e
                            | Inr inventory \<Rightarrow>
                                Inr (find (\<lambda>i. toLowerCase (i_name i) = toLowerCase (trim target))
                                       inventory))) w (\<lambda>found.
              case found of
                None \<Rightarrow> Returns () (emit sock (GameLog (''You don't see \"'' @ target @ ''\" here.'')
                                                Error None) w)
              | Some it \<Rightarrow>
                  Returns () (emit sock (GameLog (if i_description it = []
                                                  then ''You don't notice anything.''
                                                  else i_description it) Info None) w))))"

section \<open>Creation wizard: the pickup and gate branches and the commit (handlers/creation.ts)\<close>

text \<open>The snapshot every wizard step ends with: the user is read back, then the room at
  the position of the \<^verbatim>\<open>user\<close> argument, the visible rooms, the room's items and the
  inventory.\<close>

definition wizard_snapshot :: "user \<Rightarrow> world \<Rightarrow> handler_result outcome" where
  "wizard_snapshot usr w =
     (let updatedUser = getUser (u_id usr) w in
      reading (getRoom (u_current_q usr) (u_current_r usr) (u_server_code usr) w) w
        (\<lambda>currentRoomOpt.
      deref updatedUser w (\<lambda>updated.
      reading (getVisibleRooms (u_current_q updated) (u_current_r updated) (u_server_code usr) w) w
        (\<lambda>visibleRooms.
      deref currentRoomOpt w (\<lambda>currentRoom.
      reading (getRoomItems (r_id currentRoom) (u_server_code usr) w) w (\<lambda>roomItems.
      reading (getUserInventory (u_id usr) (u_server_code usr) w) w (\<lambda>inventory.
      Returns \<lparr>handled = True,
               shouldEmitState = Some
                 \<lparr>p_player = Some updated, p_room = currentRoom, p_visibleRooms = visibleRooms,
                  p_roomItems = roomItems, p_inventory = Some inventory\<rparr>\<rparr> w)))))))"

text \<open>The recovery of a step whose scratch record is missing.\<close>

definition session_expired :: "string \<Rightarrow> user \<Rightarrow> world \<Rightarrow> handler_result outcome" where
  "session_expired sock usr w =
     Returns \<lparr>handled = True, shouldEmitState = None\<rparr>
       (deleteTempItemData (u_id usr)
          (updateUserState (u_id usr) IDLE
             (emit sock (GameLog ''Creation session expired. Please try again.'' Error None) w)))"

text \<open>A value interpolated into a template literal, \<^verbatim>\<open>undefined\<close> included.\<close>

definition interpolate :: "string option \<Rightarrow> string" where
  "interpolate s = (case s of None \<Rightarrow> ''undefined'' | Some v \<Rightarrow> v)"

definition finishObjectCreation ::
  "string \<Rightarrow> user \<Rightarrow> temp_item_data \<Rightarrow> string \<Rightarrow> world \<Rightarrow> handler_result outcome" where
  "finishObjectCreation sock usr tempItemData new_id w =
     (let ty = tid_interactionType tempItemData;
          val = (case tid_effectValue tempItemData of None \<Rightarrow> 0 | Some v \<Rightarrow> v);
          effectType = (if ty = Some TREASURE then GOLD
                        else if ty = Some BUFF_TRAP then (if val > 0 then HEAL else DAMAGE)
                        else if ty = Some PICKUP then ITEM
                        else NONE);
          effectValue = (if ty = Some TREASURE then val
                         else if ty = Some BUFF_TRAP then \<bar>val\<bar>
                         else 0);
          enemyHp = (if ty = Some ENEMY
                     then (case tid_enemyHp tempItemData of None \<Rightarrow> 0 | Some v \<Rightarrow> v) else 0);
          enemyMaxHp = (if ty = Some ENEMY
                        then (case tid_enemyMaxHp tempItemData of None \<Rightarrow> 0 | Some v \<Rightarrow> v) else 0);
          enemyAttack = (if ty = Some ENEMY
                         then (case tid_enemyAttack tempItemData of None \<Rightarrow> 0 | Some v \<Rightarrow> v) else 0);
          requiredItemId = (if ty = Some GATE \<and> truthy (tid_requiredItemId tempItemData)
                            then tid_requiredItemId tempItemData else None);
          xp = (if ty = Some ENEMY
                then (case tid_xpValue tempItemData of
                        None \<Rightarrow> 10
                      | Some v \<Rightarrow> if v = 0 then 10 else v)
                else 10)
      in case (tid_name tempItemData, tid_verb tempItemData) of
           (Some name, Some verb) \<Rightarrow>
             (case createItem new_id
                     \<lparr>i_id = [], i_room_id = Some (tid_roomId tempItemData), i_owner_id = None,
                      i_server_code = u_server_code usr, i_name = name,
                      i_description = (case tid_description tempItemData of None \<Rightarrow> [] | Some d \<Rightarrow> d),
                      i_success_message =
                        (case tid_successMessage tempItemData of None \<Rightarrow> [] | Some m \<Rightarrow> m),
                      i_interact_verb = verb, i_effect_type = effectType,
                      i_effect_value = effectValue, i_is_hidden = 0,
                      i_required_item_id = requiredItemId, i_enemy_hp = enemyHp,
                      i_enemy_max_hp = enemyMaxHp, i_enemy_attack = enemyAttack, i_xp_value = xp,
                      i_is_infinite = (tid_isInfinite tempItemData = Some True)\<rparr> w of
                Inl e \<Rightarrow> Throws e w
              | Inr (created, w1) \<Rightarrow>
                  (let w2 = emit sock (GameLog (''Object \"'' @ name @ ''\" created!'') Info None) w1;
                       w3 = updateUserState (u_id usr) CREATING_OBJ_CONFIRM w2;
                       w4 = setTempItemData (u_id usr)
                              \<lparr>tid_name = None, tid_description = None, tid_verb = None,
                               tid_successMessage = None, tid_effectType = None,
                               tid_effectValue = None, tid_interactionType = None,
                               tid_enemyHp = None, tid_enemyMaxHp = None, tid_enemyAttack = None,
                               tid_isInfinite = None, tid_xpValue = None,
                               tid_requiredItemId = None, tid_requiredItemName = None,
                               tid_roomId = tid_roomId tempItemData\<rparr> w3;
                       w5 = emit sock (GameLog ''Add an object? (y/n)'' Prompt (Some ''QUESTION'')) w4
                   in wizard_snapshot usr w5))
         | _ \<Rightarrow> Throws ConstraintError w)"

definition handleObjSuccessMsg ::
  "string \<Rightarrow> user \<Rightarrow> string \<Rightarrow> string \<Rightarrow> world \<Rightarrow> handler_result outcome" where
  "handleObjSuccessMsg sock usr input new_id w =
     (case getTempItemData (u_id usr) w of
        None \<Rightarrow> session_expired sock usr w
      | Some tempItemData \<Rightarrow>
          if truthy (tid_name tempItemData)
          then (let t1 = tempItemData\<lparr>tid_successMessage := Some (trim input)\<rparr>;
                    w1 = setTempItemData (u_id usr) t1 w
                in finishObjectCreation sock usr t1 new_id w1)
          else session_expired sock usr w)"

text \<open>The step \<^verbatim>\<open>CREATING_OBJ_SUPPLY_TYPE\<close> of a pickup: 1 is unique, 2 is infinite.\<close>

definition handleObjSupplyType :: "string \<Rightarrow> user \<Rightarrow> string \<Rightarrow> world \<Rightarrow> handler_result outcome" where
  "handleObjSupplyType sock usr input w =
     (case getTempItemData (u_id usr) w of
        None \<Rightarrow> session_expired sock usr w
      | Some tempItemData \<Rightarrow>
          if truthy (tid_name tempItemData) \<and> tid_interactionType tempItemData \<noteq> None
          then (case parseInt (trim input) of
                  None \<Rightarrow>
                    Returns \<lparr>handled = True, shouldEmitState = None\<rparr>
                      (emit sock (GameLog
                         ''Invalid selection. Please enter 1 for Unique or 2 for Infinite.''
                         Error None) w)
                | Some choice \<Rightarrow>
                    if choice \<noteq> 1 \<and> choice \<noteq> 2
                    then Returns \<lparr>handled = True, shouldEmitState = None\<rparr>
                           (emit sock (GameLog
                              ''Invalid selection. Please enter 1 for Unique or 2 for Infinite.''
                              Error None) w)
                    else (let t1 = tempItemData\<lparr>tid_isInfinite := Some (choice = 2)\<rparr>;
                              w1 = setTempItemData (u_id usr) t1 w;
                              defaultVerb = (if truthy (tid_verb t1) then interpolate (tid_verb t1)
                                             else ''take'');
                              w2 = updateUserState (u_id usr) CREATING_OBJ_VERB_CONFIRM w1;
                              w3 = emit sock (GameLog (''Default verb is '' @ [CHR 0x27] @ defaultVerb
                                               @ [CHR 0x27]
                                               @ ''. Press 'Y' to confirm or type a custom verb.'')
                                               Prompt (Some ''QUESTION'')) w2
                          in wizard_snapshot usr w3))
          else session_expired sock usr w)"

definition handleObjRequirement :: "string \<Rightarrow> user \<Rightarrow> string \<Rightarrow> world \<Rightarrow> handler_result outcome" where
  "handleObjRequirement sock usr input w =
     (case getTempItemData (u_id usr) w of
        None \<Rightarrow> session_expired sock usr w
      | Some tempItemData \<Rightarrow>
          if truthy (tid_name tempItemData) \<and> tid_interactionType tempItemData \<noteq> None
          then (let requiredItemName = trim input in
                if requiredItemName = []
                then Returns \<lparr>handled = True, shouldEmitState = None\<rparr>
                       (emit sock (GameLog ''Item name cannot be empty.'' Error None) w)
                else reading (getRoomItems (tid_roomId tempItemData) (u_server_code usr) w) w
                  (\<lambda>allItems.
                   let (t1, w1) =
                         (case find (\<lambda>it. toLowerCase (i_name it) = toLowerCase requiredItemName)
                                 allItems of
                            Some matchingItem \<Rightarrow>
                              (tempItemData\<lparr>tid_requiredItemId := Some (i_id matchingItem),
                                            tid_requiredItemName := Some (i_name matchingItem)\<rparr>,
                               emit sock (GameLog (''Found item: \"'' @ i_name matchingItem
                                            @ ''\". Gate will require this item.'') Info None) w)
                          | None \<Rightarrow>
                              (tempItemData\<lparr>tid_requiredItemId := None,
                                            tid_requiredItemName := Some requiredItemName\<rparr>,
                               emit sock (GameLog (''Warning: Item \"'' @ requiredItemName
                                            @ ''\" not found in this room. Gate will be created but may not work until the item exists.'')
                                            Error None) w));
                       w2 = setTempItemData (u_id usr) t1 w1;
                       defaultVerb = (if truthy (tid_verb t1) then interpolate (tid_verb t1)
                                      else ''open'');
                       w3 = updateUserState (u_id usr) CREATING_OBJ_VERB_CONFIRM w2;
                       w4 = emit sock (GameLog (''Default verb is '' @ [CHR 0x27] @ defaultVerb @ [CHR 0x27]
                                        @ ''. Press 'Y' to confirm or type a custom verb.'')
                                        Prompt (Some ''QUESTION'')) w3
                   in wizard_snapshot usr w4))
          else session_expired sock usr w)"

definition handleObjVerbConfirm :: "string \<Rightarrow> user \<Rightarrow> string \<Rightarrow> world \<Rightarrow> handler_result outcome" where
  "handleObjVerbConfirm sock usr input w =
     (case getTempItemData (u_id usr) w of
        None \<Rightarrow> session_expired sock usr w
      | Some tempItemData \<Rightarrow>
          if truthy (tid_name tempItemData) \<and> tid_interactionType tempItemData \<noteq> None
          then (let trimmedInput = toLowerCase (trim input);
                    t1 = (if trimmedInput = ''y'' \<or> trimmedInput = ''yes'' then tempItemData
                          else tempItemData\<lparr>tid_verb := Some trimmedInput\<rparr>);
                    w1 = setTempItemData (u_id usr) t1 w;
                    w2 = updateUserState (u_id usr) CREATING_OBJ_SUCCESS_MSG w1;
                    w3 = emit sock (GameLog (''Describe what happens when someone ''
                                     @ interpolate (tid_verb t1) @ '' ''
                                     @ interpolate (tid_name t1) @ ''.'')
                                     Prompt (Some ''QUESTION'')) w2
                in wizard_snapshot usr w3)
          else session_expired sock usr w)"

section \<open>Connection events (index.ts)\<close>

text \<open>The \<^verbatim>\<open>disconnect\<close> handler of a connection.\<close>

definition on_disconnect :: "string \<Rightarrow> world \<Rightarrow> world" where
  "on_disconnect sock w = deleteSession sock w"

text \<open>The handlers whose bodies lie outside this development are parameters of the
  dispatcher: the creation wizard's \<^verbatim>\<open>handleInput\<close> and the asynchronous
  \<^verbatim>\<open>handleRegenerate\<close>, whose promise the dispatcher discards.\<close>

record ext_handlers =
  creation_handleInput :: "string \<Rightarrow> user \<Rightarrow> string \<Rightarrow> world \<Rightarrow> handler_result outcome"
  general_handleRegenerate :: "string \<Rightarrow> user \<Rightarrow> string option \<Rightarrow> world \<Rightarrow> world"

definition emit_state :: "string \<Rightarrow> handler_result \<Rightarrow> world \<Rightarrow> world" where
  "emit_state sock res w =
     (case shouldEmitState res of None \<Rightarrow> w | Some p \<Rightarrow> emit sock (StateUpdate p) w)"

text \<open>\<^verbatim>\<open>if (result.handled) { emit the snapshot, if any; return; }\<close>, and the code after
  the \<^verbatim>\<open>if\<close> otherwise.\<close>

definition if_handled ::
  "string \<Rightarrow> handler_result outcome \<Rightarrow> (world \<Rightarrow> unit outcome) \<Rightarrow> unit outcome" where
  "if_handled sock res k =
     (case res of
        Throws e w \<Rightarrow> Throws e w
      | Hangs \<Rightarrow> Hangs
      | Returns r w \<Rightarrow> if handled r then Returns () (emit_state sock r w) else k w)"

text \<open>Ordinal targeting: a target that parses as a positive number is replaced by the name
  of the item at that position of the room listing, if the user's room exists.\<close>

datatype ordinal = Keep | Named string | Missing int

definition ordinal_lookup :: "user \<Rightarrow> string \<Rightarrow> bool \<Rightarrow> world \<Rightarrow> js_error + ordinal" where
  "ordinal_lookup usr targetName enemiesOnly w =
     (case parseInt targetName of
        None \<Rightarrow> Inr Keep
      | Some targetNum \<Rightarrow>
          if targetNum > 0
          then (case getRoom (u_current_q usr) (u_current_r usr) (u_server_code usr) w of
                  Inl e \<Rightarrow> Inl e
                | Inr None \<Rightarrow> Inr Keep
                | Inr (Some currentRoom) \<Rightarrow>
                    (case getRoomItems (r_id currentRoom) (u_server_code usr) w of
                       Inl e \<Rightarrow> Inl e
                     | Inr roomItems \<Rightarrow>
                         (let cands = (if enemiesOnly
                                       then filter (\<lambda>it. i_enemy_hp it > 0) roomItems
                                       else roomItems)
                          in if targetNum \<le> int (length cands)
                             then Inr (Named (i_name (cands ! nat (targetNum - 1))))
                             else Inr (Missing targetNum))))
          else Inr Keep)"

definition route_unknown :: "string \<Rightarrow> string \<Rightarrow> world \<Rightarrow> unit outcome" where
  "route_unknown sock raw w =
     Returns () (emit sock (GameLog (''Unknown command: '' @ raw) Error None) w)"

definition no_object_at :: "string \<Rightarrow> string \<Rightarrow> int \<Rightarrow> world \<Rightarrow> unit outcome" where
  "no_object_at sock what n w =
     Returns () (emit sock (GameLog (''No '' @ what @ '' at position '' @ show_int n @ ''.'')
                              Error None) w)"

text \<open>The generic two-or-more-word interaction at the end of the dispatcher.\<close>

definition route_interaction :: "string \<Rightarrow> string \<Rightarrow> user \<Rightarrow> string \<Rightarrow> world \<Rightarrow> unit outcome" where
  "route_interaction new_id sock currentUser raw w =
     (case split_ws (trim raw) of
        w0 # w1 # ws \<Rightarrow>
          if w0 \<noteq> [] \<and> toLowerCase w0 \<notin> set [''go'', ''help'', ''fight'', ''open'']
          then reading (if w1 = [] then Inr Keep else ordinal_lookup currentUser w1 False w) w (\<lambda>ord.
               case ord of
                 Missing n \<Rightarrow> no_object_at sock ''object'' n w
               | Keep \<Rightarrow>
                   if_handled sock (handleInteraction sock currentUser raw new_id w)
                     (route_unknown sock raw)
               | Named nm \<Rightarrow>
                   if_handled sock (handleInteraction sock currentUser (w0 @ '' '' @ nm) new_id w)
                     (route_unknown sock raw))
          else route_unknown sock raw w
      | _ \<Rightarrow> route_unknown sock raw w)"

definition route_open :: "string \<Rightarrow> string \<Rightarrow> user \<Rightarrow> string \<Rightarrow> world \<Rightarrow> unit outcome" where
  "route_open new_id sock currentUser raw w =
     (let command = toLowerCase (trim raw) in
      if startsWith command ''open ''
      then (let targetName = trim (substring (trim raw) 5) in
            reading (ordinal_lookup currentUser targetName False w) w (\<lambda>ord.
            case ord of
              Missing n \<Rightarrow> no_object_at sock ''object'' n w
            | Keep \<Rightarrow>
                if_handled sock (handleInteraction sock currentUser (''open '' @ targetName) new_id w)
                  (route_interaction new_id sock currentUser raw)
            | Named nm \<Rightarrow>
                if_handled sock (handleInteraction sock currentUser (''open '' @ nm) new_id w)
                  (route_interaction new_id sock currentUser raw)))
      else route_interaction new_id sock currentUser raw w)"

definition route_retreat :: "string \<Rightarrow> string \<Rightarrow> user \<Rightarrow> string \<Rightarrow> world \<Rightarrow> unit outcome" where
  "route_retreat new_id sock currentUser raw w =
     (let command = toLowerCase (trim raw) in
      if command = ''retreat'' \<or> command = ''/retreat''
      then if_handled sock (handleRetreat sock currentUser w) (route_open new_id sock currentUser raw)
      else route_open new_id sock currentUser raw w)"

definition route_fight :: "string \<Rightarrow> string \<Rightarrow> user \<Rightarrow> string \<Rightarrow> world \<Rightarrow> unit outcome" where
  "route_fight new_id sock currentUser raw w =
     (let command = toLowerCase (trim raw) in
      if startsWith command ''fight ''
      then (let targetName = trim (substring (trim raw) 6) in
            reading (ordinal_lookup currentUser targetName True w) w (\<lambda>ord.
            case ord of
              Missing n \<Rightarrow> no_object_at sock ''enemy'' n w
            | Keep \<Rightarrow>
                if_handled sock (handleFight sock currentUser targetName w)
                  (route_retreat new_id sock currentUser raw)
            | Named nm \<Rightarrow>
                if_handled sock (handleFight sock currentUser nm w)
                  (route_retreat new_id sock currentUser raw)))
      else route_retreat new_id sock currentUser raw w)"

text \<open>The movement handler is asked first; what it does not handle goes on to combat and
  interaction.\<close>

definition route_move :: "string \<Rightarrow> string \<Rightarrow> user \<Rightarrow> string \<Rightarrow> world \<Rightarrow> unit outcome" where
  "route_move new_id sock currentUser raw w =
     if_handled sock (handleMove sock currentUser raw w) (route_fight new_id sock currentUser raw)"

text \<open>The \<^verbatim>\<open>cmd:input\<close> handler. \<open>rnd\<close> is the random oracle of the help command and
  \<open>new_id\<close> the identifier that a clone made by this command receives.\<close>

definition cmd_input ::
  "ext_handlers \<Rightarrow> (nat \<Rightarrow> nat) \<Rightarrow> string \<Rightarrow> string \<Rightarrow> string \<Rightarrow> world \<Rightarrow> unit outcome" where
  "cmd_input ext rnd new_id sock raw w =
     (case (case getSession sock w of
              None \<Rightarrow> None
            | Some userId \<Rightarrow> if userId = [] then None else Some userId) of
        None \<Rightarrow> Returns () (emit sock (GameLog ''User not found for this session.'' Error None) w)
      | Some userId \<Rightarrow>
          (case getUser userId w of
             None \<Rightarrow> Returns () (emit sock (GameLog ''User record missing.'' Error None) w)
           | Some currentUser \<Rightarrow>
               if startsWith (state_name (u_state currentUser)) ''CREATING_''
                  \<or> u_state currentUser = GENERATING_ANIMATIONS
               then (case creation_handleInput ext sock currentUser raw w of
                       Throws e w1 \<Rightarrow> Throws e w1
                     | Hangs \<Rightarrow> Hangs
                     | Returns result w1 \<Rightarrow> Returns () (emit_state sock result w1))
               else (let command = toLowerCase (trim raw) in
                     if command = ''help'' then handleHelp rnd sock currentUser w
                     else if startsWith command ''look ''
                     then handleLook sock currentUser (trim (substring (trim raw) 5)) w
                     else if command = ''look'' \<or> command = ''l''
                     then handleLook sock currentUser [] w
                     else if command = ''regenerate'' \<or> command = ''/regenerate''
                     then Returns () (general_handleRegenerate ext sock currentUser None w)
                     else if startsWith command ''regenerate '' \<or> startsWith command ''/regenerate ''
                     then (let originalInput = trim raw;
                               hasSlash = startsWith (toLowerCase originalInput) ''/regenerate '';
                               mood = trim (substring originalInput (if hasSlash then 12 else 11))
                           in Returns () (general_handleRegenerate ext sock currentUser
                                            (if mood = [] then None else Some mood) w))
                     else route_move new_id sock currentUser raw w)))"

section \<open>A small world for concrete runs\<close>

text \<open>One realm with the genesis room, a player \<open>ann\<close> who is fighting a goblin on the
  connection \<open>s1\<close>, and a second player \<open>bob\<close> who is idle in the same room.\<close>

definition ann :: user where
  "ann = \<lparr>u_id = ''u1'', u_handle = ''ann'', u_server_code = ''isle'', u_strength = 0,
          u_hp = 2, u_max_hp = 20, u_gold = 5, u_current_q = 0, u_current_r = 0,
          u_state = COMBAT\<rparr>"

definition bob :: user where
  "bob = \<lparr>u_id = ''u2'', u_handle = ''bob'', u_server_code = ''isle'', u_strength = 1,
          u_hp = 20, u_max_hp = 20, u_gold = 0, u_current_q = 0, u_current_r = 0,
          u_state = IDLE\<rparr>"

definition crash_site :: room where
  "crash_site = \<lparr>r_id = ''r0'', r_q = 0, r_r = 0, r_server_code = ''isle'',
                 r_title = ''The Crash Site'', r_description = ''Wreckage.'',
                 r_shroud_level = 3, r_created_by = ''u1'', r_symbol = None\<rparr>"

definition goblin :: item where
  "goblin = \<lparr>i_id = ''e1'', i_room_id = Some ''r0'', i_owner_id = None, i_server_code = ''isle'',
             i_name = ''goblin'', i_description = ''A goblin.'', i_success_message = [],
             i_interact_verb = ''fight'', i_effect_type = NONE, i_effect_value = 0,
             i_is_hidden = 0, i_required_item_id = None, i_enemy_hp = 3, i_enemy_max_hp = 3,
             i_enemy_attack = 0, i_xp_value = 7, i_is_infinite = False\<rparr>"

definition arena :: world where
  "arena = \<lparr>users = [ann, bob], rooms = [crash_site], items = [goblin], animations = [],
            socketUserMap = [''s1'' \<mapsto> ''u1'', ''s2'' \<mapsto> ''u2''],
            tempRoomDataMap = Map.empty, tempItemDataMap = Map.empty,
            activeBattles = [''u1'' \<mapsto> 0],
            battleData = [''u1'' \<mapsto> \<lparr>ab_userId = ''u1'', ab_socketId = ''s1'',
                                       ab_enemyId = ''e1'', ab_interval = 0\<rparr>],
            intervals = [0 \<mapsto> \<lparr>tc_socket = ''s1'', tc_user_id = ''u1'', tc_target_id = ''e1''\<rparr>],
            next_interval = 1, outbox = []\<rparr>"

text \<open>The dispatcher loads the user and hands it to a handler; the next command runs in the
  world the previous one left.\<close>

definition next_command :: "world option \<Rightarrow> string \<Rightarrow> (user \<Rightarrow> world \<Rightarrow> 'a outcome) \<Rightarrow> world option" where
  "next_command wo uid handler =
     (case wo of
        None \<Rightarrow> None
      | Some w \<Rightarrow> (case getUser uid w of None \<Rightarrow> None | Some u \<Rightarrow> world_of (handler u w)))"

text \<open>\<open>ann\<close> is authoring an object named \<open>gate\<close> in the genesis room and has chosen the type
  Gate; the wizard waits for the name of the required key.\<close>

definition gate_draft :: temp_item_data where
  "gate_draft = \<lparr>tid_name = Some ''gate'', tid_description = Some ''An iron gate.'',
                 tid_verb = Some ''open'', tid_successMessage = None, tid_effectType = None,
                 tid_effectValue = None, tid_interactionType = Some GATE, tid_enemyHp = None,
                 tid_enemyMaxHp = None, tid_enemyAttack = None, tid_isInfinite = None,
                 tid_xpValue = None, tid_requiredItemId = None, tid_requiredItemName = None,
                 tid_roomId = ''r0''\<rparr>"

definition gate_scene :: world where
  "gate_scene = \<lparr>users = [ann\<lparr>u_state := CREATING_OBJ_REQUIREMENT\<rparr>, bob], rooms = [crash_site],
                 items = [goblin], animations = [],
                 socketUserMap = [''s1'' \<mapsto> ''u1'', ''s2'' \<mapsto> ''u2''],
                 tempRoomDataMap = Map.empty, tempItemDataMap = [''u1'' \<mapsto> gate_draft],
                 activeBattles = Map.empty, battleData = Map.empty, intervals = Map.empty,
                 next_interval = 0, outbox = []\<rparr>"

text \<open>The author names a key that no item of the room matches, keeps the default verb and
  leaves the success message blank; the committed item receives the id \<open>g1\<close>.\<close>

definition gate_authored :: "world option" where
  "gate_authored =
     next_command
       (next_command
          (next_command (Some gate_scene) ''u1'' (\<lambda>u. handleObjRequirement ''s1'' u ''key''))
          ''u1'' (\<lambda>u. handleObjVerbConfirm ''s1'' u ''y''))
       ''u1'' (\<lambda>u. handleObjSuccessMsg ''s1'' u [] ''g1'')"

text \<open>The row the wizard commits for that gate.\<close>

definition iron_gate :: item where
  "iron_gate = \<lparr>i_id = ''g1'', i_room_id = Some ''r0'', i_owner_id = None, i_server_code = ''isle'',
             i_name = ''gate'', i_description = ''An iron gate.'', i_success_message = [],
             i_interact_verb = ''open'', i_effect_type = NONE, i_effect_value = 0,
             i_is_hidden = 0, i_required_item_id = None, i_enemy_hp = 0, i_enemy_max_hp = 0,
             i_enemy_attack = 0, i_xp_value = 10, i_is_infinite = False\<rparr>"

text \<open>A third player \<open>cat\<close> stands in the genesis room while \<open>ann\<close> is authoring an object
  named \<open>torch\<close> there. The author has chosen the type Pickup, which set the verb \<open>take\<close>,
  and the wizard asks whether the item is unique or infinite.\<close>

definition cat :: user where
  "cat = \<lparr>u_id = ''u3'', u_handle = ''cat'', u_server_code = ''isle'', u_strength = 0,
          u_hp = 20, u_max_hp = 20, u_gold = 0, u_current_q = 0, u_current_r = 0,
          u_state = IDLE\<rparr>"

definition torch_draft :: temp_item_data where
  "torch_draft = \<lparr>tid_name = Some ''torch'', tid_description = Some ''A torch.'',
                 tid_verb = Some ''take'', tid_successMessage = None, tid_effectType = None,
                 tid_effectValue = None, tid_interactionType = Some PICKUP, tid_enemyHp = None,
                 tid_enemyMaxHp = None, tid_enemyAttack = None, tid_isInfinite = None,
                 tid_xpValue = None, tid_requiredItemId = None, tid_requiredItemName = None,
                 tid_roomId = ''r0''\<rparr>"

definition torch_scene :: world where
  "torch_scene = \<lparr>users = [ann\<lparr>u_state := CREATING_OBJ_SUPPLY_TYPE\<rparr>, bob, cat],
                 rooms = [crash_site], items = [goblin], animations = [],
                 socketUserMap = [''s1'' \<mapsto> ''u1'', ''s2'' \<mapsto> ''u2'', ''s3'' \<mapsto> ''u3''],
                 tempRoomDataMap = Map.empty, tempItemDataMap = [''u1'' \<mapsto> torch_draft],
                 activeBattles = Map.empty, battleData = Map.empty, intervals = Map.empty,
                 next_interval = 0, outbox = []\<rparr>"

text \<open>The author answers \<open>2\<close>, for infinite, keeps the default verb and leaves the success
  message blank; the committed item receives the id \<open>t1\<close>.\<close>

definition torch_chosen :: "world option" where
  "torch_chosen = next_command (Some torch_scene) ''u1'' (\<lambda>u. handleObjSupplyType ''s1'' u ''2'')"

definition torch_authored :: "world option" where
  "torch_authored =
     next_command
       (next_command torch_chosen ''u1'' (\<lambda>u. handleObjVerbConfirm ''s1'' u ''y''))
       ''u1'' (\<lambda>u. handleObjSuccessMsg ''s1'' u [] ''t1'')"

text \<open>The row the wizard commits for that torch.\<close>

definition torch :: item where
  "torch = \<lparr>i_id = ''t1'', i_room_id = Some ''r0'', i_owner_id = None, i_server_code = ''isle'',
            i_name = ''torch'', i_description = ''A torch.'', i_success_message = [],
            i_interact_verb = ''take'', i_effect_type = ITEM, i_effect_value = 0,
            i_is_hidden = 0, i_required_item_id = None, i_enemy_hp = 0, i_enemy_max_hp = 0,
            i_enemy_attack = 0, i_xp_value = 10, i_is_infinite = False\<rparr>"

section \<open>Notions used in the statements\<close>

text \<open>Every branch of a handler that ends in a world extends the outbox.\<close>

definition extends_outbox :: "world \<Rightarrow> 'a outcome \<Rightarrow> bool" where
  "extends_outbox w res = (\<exists>w' es. world_of res = Some w' \<and> outbox w' = outbox w @ es)"

text \<open>The events a step added to the outbox, and the \<^verbatim>\<open>combat:end\<close> events among them.\<close>

definition emitted :: "world \<Rightarrow> world \<Rightarrow> (string \<times> event) list" where
  "emitted w w' = drop (length (outbox w)) (outbox w')"

fun is_combat_end :: "event \<Rightarrow> bool" where
  "is_combat_end (CombatEnd res loot) = True"
| "is_combat_end ev = False"

text \<open>A handler run ends, by returning or by throwing, in a world that satisfies \<open>P\<close>.\<close>

definition ends_in :: "(world \<Rightarrow> bool) \<Rightarrow> 'a outcome \<Rightarrow> bool" where
  "ends_in P res = (case world_of res of None \<Rightarrow> False | Some w' \<Rightarrow> P w')"

text \<open>The positions of a text that the obfuscation loop can pick: those that hold a
  character other than the space.\<close>

definition hideable :: "string \<Rightarrow> nat set" where
  "hideable chars = {i. i < length chars \<and> chars ! i \<noteq> CHR '' ''}"

text \<open>What holds of every item row the program writes: the \<open>xp_value\<close> is not zero and the
  row carries no \<open>is_infinite\<close> flag.\<close>

definition rows_as_written :: "world \<Rightarrow> bool" where
  "rows_as_written w = list_all (\<lambda>it. i_xp_value it \<noteq> 0 \<and> \<not> i_is_infinite it) (items w)"

section \<open>Verified properties\<close>

subsection \<open>Auxiliary facts about the stores\<close>

lemma ceil_half_ceiling: "ceil_half d = \<lceil>real_of_int d / 2\<rceil>"
  using ceiling_divide_eq_div [where 'a = real, of d 2] by (simp add: ceil_half_def)

lemma find_map_upd:
  assumes "\<And>x. key (f x) = key x"
  shows "find (\<lambda>x. key x = k) (map (\<lambda>x. if key x = k then f x else x) xs)
         = map_option f (find (\<lambda>x. key x = k) xs)"
  using assms by (induction xs) auto

lemma find_map_other:
  assumes "\<And>x. key (f x) = key x" "k \<noteq> k'"
  shows "find (\<lambda>x. key x = k) (map (\<lambda>x. if key x = k' then f x else x) xs)
         = find (\<lambda>x. key x = k) xs"
  using assms by (induction xs) auto

lemma find_distinct_key:
  assumes "distinct (map key xs)" "x \<in> set xs"
  shows "find (\<lambda>y. key y = key x) xs = Some x"
  using assms by (induction xs) (auto simp: rev_image_eqI)

lemma find_filter_mem:
  assumes "find P (filter Q xs) = Some x"
  shows "x \<in> set xs \<and> P x \<and> Q x"
  using assms by (induction xs) (auto split: if_splits)


lemmas store_defs = emit_def updateUserStats_def updateUserState_def updateUserPosition_def
  updateItemEnemyHp_def setItemOwner_def deleteItem_def clearInterval_def endBattle_def
  startBattle_def setTempRoomData_def setTempItemData_def deleteTempRoomData_def
  deleteTempItemData_def cloneItemForUser_def

lemma getUser_updateUserStats:
  "getUser uid (updateUserStats uid st w) = map_option (set_stats st) (getUser uid w)"
proof -
  have "\<And>x. u_id (set_stats st x) = u_id x" by (simp add: set_stats_def)
  then show ?thesis by (simp add: getUser_def updateUserStats_def find_map_upd)
qed

lemma getUser_updateUserState:
  "getUser uid (updateUserState uid s w) = map_option (\<lambda>u. u\<lparr>u_state := s\<rparr>) (getUser uid w)"
  by (simp add: getUser_def updateUserState_def find_map_upd)

lemma getUser_updateUserPosition:
  "getUser uid (updateUserPosition uid q r w)
   = map_option (\<lambda>u. u\<lparr>u_current_q := q, u_current_r := r\<rparr>) (getUser uid w)"
  by (simp add: getUser_def updateUserPosition_def find_map_upd)

lemma getItem_updateItemEnemyHp:
  "getItem iid (updateItemEnemyHp iid hp w) = map_option (\<lambda>i. i\<lparr>i_enemy_hp := hp\<rparr>) (getItem iid w)"
  by (simp add: getItem_def updateItemEnemyHp_def find_map_upd)

lemma getUser_frame [simp]:
  "getUser uid (emit sock ev w) = getUser uid w"
  "getUser uid (updateItemEnemyHp iid hp w) = getUser uid w"
  "getUser uid (clearInterval h w) = getUser uid w"
  "getUser uid (endBattle uid' w) = getUser uid w"
  "getUser uid (deleteItem iid w) = getUser uid w"
  by (simp_all add: getUser_def store_defs Let_def split: option.splits)

lemma getItem_frame [simp]:
  "getItem iid (emit sock ev w) = getItem iid w"
  "getItem iid (updateUserStats uid st w) = getItem iid w"
  "getItem iid (updateUserState uid s w) = getItem iid w"
  "getItem iid (updateUserPosition uid q r w) = getItem iid w"
  "getItem iid (clearInterval h w) = getItem iid w"
  "getItem iid (endBattle uid' w) = getItem iid w"
  by (simp_all add: getItem_def store_defs Let_def split: option.splits)

lemma outbox_frame [simp]:
  "outbox (emit sock ev w) = outbox w @ [(sock, ev)]"
  "outbox (updateUserStats uid st w) = outbox w"
  "outbox (updateUserState uid s w) = outbox w"
  "outbox (updateUserPosition uid q r w) = outbox w"
  "outbox (updateItemEnemyHp iid hp w) = outbox w"
  "outbox (deleteItem iid w) = outbox w"
  "outbox (clearInterval h w) = outbox w"
  "outbox (endBattle uid' w) = outbox w"
  by (simp_all add: store_defs Let_def split: option.splits)

lemma extends_outbox_Returns [simp]:
  "extends_outbox w (Returns x w') = (\<exists>es. outbox w' = outbox w @ es)"
  "extends_outbox w (Throws e w') = (\<exists>es. outbox w' = outbox w @ es)"
  by (simp_all add: extends_outbox_def)

lemma extends_reading:
  assumes "\<exists>es. outbox w1 = outbox w @ es" "\<And>x. extends_outbox w (k x)"
  shows "extends_outbox w (reading r w1 k)"
  using assms by (cases r) (auto simp: reading_def)

lemma extends_deref:
  assumes "\<exists>es. outbox w1 = outbox w @ es" "\<And>x. extends_outbox w (k x)"
  shows "extends_outbox w (deref r w1 k)"
  using assms by (cases r) (auto simp: deref_def)

lemma handlePlayerDeath_extends: "extends_outbox w (handlePlayerDeath usr sock w)"
  unfolding handlePlayerDeath_def Let_def
  by (intro extends_reading extends_deref) simp_all

lemma tick_victory_extends: "extends_outbox w (tick_victory sock uid h en uu w)"
  unfolding tick_victory_def Let_def
  by (intro extends_reading extends_deref) simp_all

lemma extends_outbox_trans:
  assumes "extends_outbox w1 res" "outbox w1 = outbox w @ es"
  shows "extends_outbox w res"
  using assms by (auto simp: extends_outbox_def)

lemma tick_defeat_extends: "extends_outbox w (tick_defeat sock uid h uu w)"
  unfolding tick_defeat_def Let_def
  by (rule extends_outbox_trans [OF handlePlayerDeath_extends]) simp


lemma getUser_Some_id: "getUser uid w = Some u \<Longrightarrow> u_id u = uid"
  by (auto simp: getUser_def find_Some_iff)

lemma room_enemy_is_stored:
  assumes "getRoomItems rid sc w = Inr its" "find (\<lambda>i. i_id i = tid) its = Some en"
    and "distinct (map i_id (items w))"
  shows "getItem tid w = Some en \<and> i_id en = tid"
proof -
  from assms(1) have its: "its = filter (\<lambda>i. i_room_id i = Some rid \<and> i_owner_id i = None
        \<and> i_server_code i = sc) (items w)"
    by (auto simp: getRoomItems_def split: if_splits)
  from find_filter_mem [OF assms(2) [unfolded its]]
  have mem: "en \<in> set (items w)" and id: "i_id en = tid" by auto
  from find_distinct_key [OF assms(3) mem] id show ?thesis by (simp add: getItem_def)
qed

lemma tick_fight_emits:
  fixes dp de :: int
  assumes usr: "getUser uid w = Some cu" and sto: "getItem (i_id en) w = Some en"
  defines "p \<equiv> dp + u_strength cu" and "r \<equiv> de + i_enemy_attack en"
  defines "c \<equiv> \<lceil>real_of_int \<bar>p - r\<bar> / 2\<rceil>"
  defines "dmg \<equiv> (if p > r then c + 1 else if r > p then c else 0)"
  defines "src \<equiv> (if p > r then SrcPlayer else if r > p then SrcEnemy else SrcTie)"
  defines "ehp \<equiv> (if p > r then max 0 (i_enemy_hp en - dmg) else i_enemy_hp en)"
  defines "php \<equiv> (if r > p then max 0 (u_hp cu - dmg) else u_hp cu)"
  defines "w1 \<equiv> snd (resolve_rolls cu en p r w)"
  shows "fst (resolve_rolls cu en p r w) = (dmg, src)"
    and "w1 = (if p > r then updateItemEnemyHp (i_id en) ehp w
               else if r > p then updateUserStats uid (no_stats\<lparr>s_hp := Some php\<rparr>) w else w)"
    and "getItem (i_id en) w1 = Some (en\<lparr>i_enemy_hp := ehp\<rparr>)"
    and "getUser uid w1 = Some (cu\<lparr>u_hp := php\<rparr>)"
    and "\<exists>w' rest. world_of (tick_fight sock uid h cu en dp de w) = Some w' \<and>
           outbox w' = outbox w @ (sock, CombatUpdate
             \<lparr>playerHp = php, playerMaxHp = u_max_hp cu, enemyHp = ehp,
              enemyMaxHp = i_enemy_max_hp en, playerRoll = p, enemyRoll = r,
              damage = dmg, source = src\<rparr>) # rest"
proof -
  have uid: "u_id cu = uid" using usr by (rule getUser_Some_id)
  have c: "ceil_half \<bar>p - r\<bar> = c" by (simp add: c_def ceil_half_ceiling)
  show res: "fst (resolve_rolls cu en p r w) = (dmg, src)"
    using c by (auto simp: resolve_rolls_def Let_def dmg_def src_def)
  show w1: "w1 = (if p > r then updateItemEnemyHp (i_id en) ehp w
               else if r > p then updateUserStats uid (no_stats\<lparr>s_hp := Some php\<rparr>) w else w)"
    using c by (auto simp: w1_def resolve_rolls_def Let_def dmg_def ehp_def php_def uid)
  show ge: "getItem (i_id en) w1 = Some (en\<lparr>i_enemy_hp := ehp\<rparr>)"
    by (simp add: w1 getItem_updateItemEnemyHp sto ehp_def)
  show gu: "getUser uid w1 = Some (cu\<lparr>u_hp := php\<rparr>)"
    by (simp add: w1 getUser_updateUserStats usr set_stats_def no_stats_def php_def)
  have ob: "outbox w1 = outbox w" by (simp add: w1)
  define ev where "ev = CombatUpdate
             \<lparr>playerHp = php, playerMaxHp = u_max_hp cu, enemyHp = ehp,
              enemyMaxHp = i_enemy_max_hp en, playerRoll = p, enemyRoll = r,
              damage = dmg, source = src\<rparr>"
  define w2 where "w2 = emit sock ev w1"
  have rr: "resolve_rolls cu en p r w = ((dmg, src), w1)"
    using res by (simp add: w1_def prod_eq_iff)
  have tf: "tick_fight sock uid h cu en dp de w =
      (if ehp \<le> 0 then tick_victory sock uid h en (cu\<lparr>u_hp := php\<rparr>) w2
       else if php \<le> 0 then tick_defeat sock uid h (cu\<lparr>u_hp := php\<rparr>) w2
       else Returns () w2)"
    unfolding tick_fight_def Let_def p_def [symmetric] r_def [symmetric]
    by (simp add: rr ge gu deref_def w2_def ev_def)
  have o2: "outbox w2 = outbox w @ [(sock, ev)]" by (simp add: w2_def ob)
  have "extends_outbox w2 (tick_fight sock uid h cu en dp de w)"
    unfolding tf using tick_victory_extends tick_defeat_extends by simp
  then obtain w' es where "world_of (tick_fight sock uid h cu en dp de w) = Some w'"
    and "outbox w' = outbox w2 @ es" by (auto simp: extends_outbox_def)
  then show "\<exists>w' rest. world_of (tick_fight sock uid h cu en dp de w) = Some w' \<and>
           outbox w' = outbox w @ (sock, CombatUpdate
             \<lparr>playerHp = php, playerMaxHp = u_max_hp cu, enemyHp = ehp,
              enemyMaxHp = i_enemy_max_hp en, playerRoll = p, enemyRoll = r,
              damage = dmg, source = src\<rparr>) # rest"
    using o2 by (auto simp: ev_def)
qed

lemma combat_tick_reaches_fight:
  assumes "getUser uid w = Some cu"
    and "getRoom (u_current_q cu) (u_current_r cu) (u_server_code cu) w = Inr (Some rm)"
    and "getRoomItems (r_id rm) (u_server_code cu) w = Inr its"
    and "find (\<lambda>i. i_id i = tid) its = Some en"
    and "0 < i_enemy_hp en"
  shows "combat_tick sock uid tid h d1 d2 w = tick_fight sock uid h cu en d1 d2 w"
  using assms by (simp add: combat_tick_def reading_def)

subsection \<open>Hex-grid movement\<close>

text \<open>
  Claim C9. \<open>moveAxial\<close> implements the fixed offset map n:(0,-1), s:(0,+1), ne:(+1,-1),
  sw:(-1,+1), nw:(-1,0), se:(+1,0), and from every coordinate \<open>(q, r)\<close> a step in a direction
  followed by a step in the opposite direction (n and s, ne and sw, nw and se, in either
  order) leads back to \<open>(q, r)\<close>.
\<close>

theorem moveAxial_offsets_and_inverses:
  "moveAxial q r N = (q + 0, r - 1) \<and>
   moveAxial q r S = (q + 0, r + 1) \<and>
   moveAxial q r NE = (q + 1, r - 1) \<and>
   moveAxial q r SW = (q - 1, r + 1) \<and>
   moveAxial q r NW = (q - 1, r + 0) \<and>
   moveAxial q r SE = (q + 1, r + 0) \<and>
   (case moveAxial q r N of (q', r') \<Rightarrow> moveAxial q' r' S) = (q, r) \<and>
   (case moveAxial q r S of (q', r') \<Rightarrow> moveAxial q' r' N) = (q, r) \<and>
   (case moveAxial q r NE of (q', r') \<Rightarrow> moveAxial q' r' SW) = (q, r) \<and>
   (case moveAxial q r SW of (q', r') \<Rightarrow> moveAxial q' r' NE) = (q, r) \<and>
   (case moveAxial q r NW of (q', r') \<Rightarrow> moveAxial q' r' SE) = (q, r) \<and>
   (case moveAxial q r SE of (q', r') \<Rightarrow> moveAxial q' r' NW) = (q, r)"
  by simp

subsection \<open>Combat tick\<close>

lemma getRoom_frame [simp]:
  "getRoom q r sc (emit sock ev w) = getRoom q r sc w"
  "getRoom q r sc (updateUserStats uid st w) = getRoom q r sc w"
  "getRoom q r sc (updateUserState uid s w) = getRoom q r sc w"
  "getRoom q r sc (updateUserPosition uid q' r' w) = getRoom q r sc w"
  "getRoom q r sc (updateItemEnemyHp iid hp w) = getRoom q r sc w"
  "getRoom q r sc (deleteItem iid w) = getRoom q r sc w"
  "getRoom q r sc (clearInterval h w) = getRoom q r sc w"
  "getRoom q r sc (endBattle uid' w) = getRoom q r sc w"
  by (simp_all add: getRoom_def store_defs Let_def split: option.splits)



lemma tick_fight_branches:
  fixes dp de :: int and sock :: string
  assumes usr: "getUser uid w = Some cu" and sto: "getItem (i_id en) w = Some en"
  defines "p \<equiv> dp + u_strength cu" and "r \<equiv> de + i_enemy_attack en"
  defines "c \<equiv> \<lceil>real_of_int \<bar>p - r\<bar> / 2\<rceil>"
  defines "dmg \<equiv> (if p > r then c + 1 else if r > p then c else 0)"
  defines "src \<equiv> (if p > r then SrcPlayer else if r > p then SrcEnemy else SrcTie)"
  defines "ehp \<equiv> (if p > r then max 0 (i_enemy_hp en - dmg) else i_enemy_hp en)"
  defines "php \<equiv> (if r > p then max 0 (u_hp cu - dmg) else u_hp cu)"
  defines "w2 \<equiv> emit sock (CombatUpdate
             \<lparr>playerHp = php, playerMaxHp = u_max_hp cu, enemyHp = ehp,
              enemyMaxHp = i_enemy_max_hp en, playerRoll = p, enemyRoll = r,
              damage = dmg, source = src\<rparr>) (snd (resolve_rolls cu en p r w))"
  shows "tick_fight sock uid h cu en dp de w =
      (if ehp \<le> 0 then tick_victory sock uid h en (cu\<lparr>u_hp := php\<rparr>) w2
       else if php \<le> 0 then tick_defeat sock uid h (cu\<lparr>u_hp := php\<rparr>) w2
       else Returns () w2)"
proof -
  note e = tick_fight_emits(1,3,4) [OF usr sto, where dp = dp and de = de]
  have rr: "resolve_rolls cu en p r w = ((dmg, src), snd (resolve_rolls cu en p r w))"
    using e(1) by (simp add: prod_eq_iff p_def r_def dmg_def src_def c_def)
  show ?thesis
    unfolding tick_fight_def Let_def p_def [symmetric] r_def [symmetric]
    apply (subst rr)
    using e(2,3)
    by (simp add: deref_def w2_def p_def r_def c_def dmg_def ehp_def php_def src_def)
qed

lemma items_frame [simp]:
  "items (emit sock ev w) = items w"
  "items (updateUserStats uid st w) = items w"
  "items (updateUserState uid s w) = items w"
  "items (updateUserPosition uid q r w) = items w"
  "items (clearInterval h w) = items w"
  "items (endBattle uid' w) = items w"
  by (simp_all add: store_defs Let_def split: option.splits)

lemma intervals_frame [simp]:
  "intervals (emit sock ev w) = intervals w"
  "intervals (updateUserStats uid st w) = intervals w"
  "intervals (updateUserState uid s w) = intervals w"
  "intervals (updateUserPosition uid q r w) = intervals w"
  "intervals (updateItemEnemyHp iid hp w) = intervals w"
  "intervals (deleteItem iid w) = intervals w"
  by (simp_all add: store_defs)

lemma activeBattles_frame [simp]:
  "activeBattles (emit sock ev w) = activeBattles w"
  "activeBattles (updateUserStats uid st w) = activeBattles w"
  "activeBattles (updateUserState uid s w) = activeBattles w"
  "activeBattles (updateUserPosition uid q r w) = activeBattles w"
  "activeBattles (updateItemEnemyHp iid hp w) = activeBattles w"
  "activeBattles (deleteItem iid w) = activeBattles w"
  "activeBattles (clearInterval h w) = activeBattles w"
  by (simp_all add: store_defs)

lemma endBattle_clears:
  "activeBattles (endBattle uid w) uid = None"
  "intervals w h = None \<Longrightarrow> intervals (endBattle uid w) h = None"
  "intervals (clearInterval h w) h = None"
  by (auto simp: store_defs Let_def split: option.splits)


subsection \<open>Victory\<close>





lemma arena_reads:
  "getUser ''u1'' (arena\<lparr>items := [g]\<rparr>) = Some ann"
  "getRoom (u_current_q ann) (u_current_r ann) (u_server_code ann) (arena\<lparr>items := [g]\<rparr>)
     = Inr (Some crash_site)"
  "distinct (map i_id (items (arena\<lparr>items := [g]\<rparr>)))"
  "arena\<lparr>items := [goblin]\<rparr> = arena"
  by (simp_all add: getUser_def getRoom_def arena_def ann_def crash_site_def)

lemma arena_goblin:
  "getRoomItems (r_id crash_site) (u_server_code ann) (arena\<lparr>items := [goblin\<lparr>i_xp_value := x\<rparr>]\<rparr>)
     = Inr [goblin\<lparr>i_xp_value := x\<rparr>]"
  "find (\<lambda>i. i_id i = ''e1'') [goblin\<lparr>i_xp_value := x\<rparr>] = Some (goblin\<lparr>i_xp_value := x\<rparr>)"
  "0 < i_enemy_hp (goblin\<lparr>i_xp_value := x\<rparr>)"
  "i_enemy_hp (goblin\<lparr>i_xp_value := x\<rparr>) = 3"
  "i_enemy_attack (goblin\<lparr>i_xp_value := x\<rparr>) = 0"
  "u_strength ann = 0" "u_gold ann = 5"
  "goblin\<lparr>i_xp_value := 7\<rparr> = goblin"
  by (simp_all add: getRoomItems_def arena_def ann_def crash_site_def goblin_def)


subsection \<open>Defeat\<close>

lemma ends_in_simps [simp]:
  "ends_in P (Returns x w') = P w'"
  "ends_in P (Throws e w') = P w'"
  "ends_in P Hangs = False"
  by (simp_all add: ends_in_def)

lemma ends_in_reading:
  assumes "P w1" "\<And>x. ends_in P (k x)"
  shows "ends_in P (reading r w1 k)"
  using assms by (cases r) (auto simp: reading_def)

lemma ends_in_deref:
  assumes "P w1" "\<And>x. ends_in P (k x)"
  shows "ends_in P (deref r w1 k)"
  using assms by (cases r) (auto simp: deref_def)

lemma ends_in_world: "ends_in P res \<Longrightarrow> \<exists>w'. world_of res = Some w' \<and> P w'"
  by (auto simp: ends_in_def split: option.splits)

lemma battle_frame [simp]:
  "battleData (emit sock ev w) = battleData w"
  "battleData (updateUserStats uid st w) = battleData w"
  "battleData (updateUserState uid s w) = battleData w"
  "battleData (updateUserPosition uid q r w) = battleData w"
  by (simp_all add: store_defs)

lemma handlePlayerDeath_effect:
  assumes su: "getUser (u_id usr) w = Some su"
  shows "ends_in (\<lambda>w'. getUser (u_id usr) w'
                = Some (su\<lparr>u_hp := u_max_hp usr, u_current_q := 0, u_current_r := 0, u_state := IDLE\<rparr>)
            \<and> items w' = items w \<and> intervals w' = intervals w
            \<and> activeBattles w' = activeBattles w
            \<and> (\<exists>es. outbox w' = outbox w @ es \<and> filter (\<lambda>se. is_combat_end (snd se)) es = []))
         (handlePlayerDeath usr sock w)"
  unfolding handlePlayerDeath_def Let_def
  by (intro ends_in_reading ends_in_deref)
     (simp_all add: getUser_updateUserState getUser_updateUserPosition getUser_updateUserStats su
        set_stats_def no_stats_def)

lemma defeat_tick_effect:
  fixes d1 d2 :: int
  assumes usr: "getUser uid w = Some cu"
    and rm: "getRoom (u_current_q cu) (u_current_r cu) (u_server_code cu) w = Inr (Some rm)"
    and its: "getRoomItems (r_id rm) (u_server_code cu) w = Inr its"
    and en: "find (\<lambda>i. i_id i = tid) its = Some en"
    and alive: "0 < i_enemy_hp en"
    and pk: "distinct (map i_id (items w))"
    and lose: "d1 + u_strength cu < d2 + i_enemy_attack en"
    and fatal: "u_hp cu
               \<le> \<lceil>real_of_int \<bar>(d1 + u_strength cu) - (d2 + i_enemy_attack en)\<bar> / 2\<rceil>"
  shows "\<exists>w'. world_of (combat_tick sock uid tid h d1 d2 w) = Some w'
          \<and> getUser uid w'
              = Some (cu\<lparr>u_hp := u_max_hp cu, u_current_q := 0, u_current_r := 0, u_state := IDLE\<rparr>)
          \<and> items w' = items w
          \<and> filter (\<lambda>se. is_combat_end (snd se)) (emitted w w') = [(sock, CombatEnd Loss None)]
          \<and> intervals w' h = None
          \<and> \<not> isInCombat uid w'"
proof -
  from room_enemy_is_stored [OF its en pk]
  have sto: "getItem (i_id en) w = Some en" and tid: "i_id en = tid" by simp_all
  have uid: "u_id cu = uid" using usr by (rule getUser_Some_id)
  define p where "p = d1 + u_strength cu"
  define r where "r = d2 + i_enemy_attack en"
  define ev where "ev = CombatUpdate
             \<lparr>playerHp = 0, playerMaxHp = u_max_hp cu, enemyHp = i_enemy_hp en,
              enemyMaxHp = i_enemy_max_hp en, playerRoll = p, enemyRoll = r,
              damage = \<lceil>real_of_int \<bar>p - r\<bar> / 2\<rceil>, source = SrcEnemy\<rparr>"
  define w1 where "w1 = updateUserStats uid (no_stats\<lparr>s_hp := Some 0\<rparr>) w"
  define w2 where "w2 = emit sock ev w1"
  define dead where "dead = cu\<lparr>u_hp := 0\<rparr>"
  have s1: "snd (resolve_rolls cu en p r w) = w1"
    using tick_fight_emits(2) [OF usr sto, where dp = d1 and de = d2] lose fatal
    by (simp add: p_def r_def w1_def)
  have tick: "combat_tick sock uid tid h d1 d2 w = tick_defeat sock uid h dead w2"
    unfolding combat_tick_reaches_fight [OF usr rm its en alive]
      tick_fight_branches [OF usr sto]
    using lose fatal alive s1 by (simp add: p_def r_def w2_def ev_def dead_def)
  define w4 where "w4 = emit sock (CombatEnd Loss None) (endBattle uid (clearInterval h w2))"
  have su: "getUser (u_id dead) w4 = Some dead"
    by (simp add: w4_def w2_def w1_def dead_def uid getUser_updateUserStats usr
        set_stats_def no_stats_def)
  have td: "tick_defeat sock uid h dead w2 = handlePlayerDeath dead sock w4"
    by (simp add: tick_defeat_def Let_def w4_def)
  from ends_in_world [OF handlePlayerDeath_effect [OF su, of sock]]
  obtain w' es where run: "world_of (handlePlayerDeath dead sock w4) = Some w'"
    and gu: "getUser (u_id dead) w'
        = Some (dead\<lparr>u_hp := u_max_hp dead, u_current_q := 0, u_current_r := 0, u_state := IDLE\<rparr>)"
    and it: "items w' = items w4" and iv: "intervals w' = intervals w4"
    and ab: "activeBattles w' = activeBattles w4"
    and ob: "outbox w' = outbox w4 @ es" and ne: "filter (\<lambda>se. is_combat_end (snd se)) es = []"
    by blast
  have "getUser uid w'
        = Some (cu\<lparr>u_hp := u_max_hp cu, u_current_q := 0, u_current_r := 0, u_state := IDLE\<rparr>)"
    using gu by (simp add: dead_def uid)
  moreover have "items w' = items w" by (simp add: it w4_def w2_def w1_def)
  moreover have "filter (\<lambda>se. is_combat_end (snd se)) (emitted w w') = [(sock, CombatEnd Loss None)]"
    by (simp add: emitted_def ob ne w4_def w2_def w1_def ev_def)
  moreover have "intervals w' h = None" by (simp add: iv w4_def endBattle_clears)
  moreover have "\<not> isInCombat uid w'"
    by (simp add: isInCombat_def ab w4_def endBattle_clears domIff)
  ultimately show ?thesis using tick td run by simp
qed


text \<open>
  Claim C5. A combat tick that reaches its roll phase, in which the enemy wins the roll and
  the damage is at least the player's HP, ends in a world where the user's row is the row
  from before the tick with HP set to \<open>max_hp\<close>, the coordinate set to \<open>(0, 0)\<close> and the mode set
  to \<open>IDLE\<close>: the gold and every other field are as they were. The items are untouched, the
  one \<^verbatim>\<open>combat:end\<close> emitted is the loss, the timer is cleared and the user is out of the
  battle registry.
\<close>

theorem combat_defeat_outcome:
  fixes d1 d2 :: int
  assumes "getUser uid w = Some cu"
    and "getRoom (u_current_q cu) (u_current_r cu) (u_server_code cu) w = Inr (Some rm)"
    and "getRoomItems (r_id rm) (u_server_code cu) w = Inr its"
    and "find (\<lambda>i. i_id i = tid) its = Some en"
    and "0 < i_enemy_hp en"
    and "distinct (map i_id (items w))"
    and "d1 + u_strength cu < d2 + i_enemy_attack en"
    and "u_hp cu \<le> \<lceil>real_of_int \<bar>(d1 + u_strength cu) - (d2 + i_enemy_attack en)\<bar> / 2\<rceil>"
  shows "\<exists>w'. world_of (combat_tick sock uid tid h d1 d2 w) = Some w'
          \<and> getUser uid w'
              = Some (cu\<lparr>u_hp := u_max_hp cu, u_current_q := 0, u_current_r := 0, u_state := IDLE\<rparr>)
          \<and> items w' = items w
          \<and> filter (\<lambda>se. is_combat_end (snd se)) (emitted w w') = [(sock, CombatEnd Loss None)]
          \<and> intervals w' h = None
          \<and> \<not> isInCombat uid w'"
  using assms by (rule defeat_tick_effect)

theorem combat_defeat_outcome_witness:
  "getUser ''u1'' arena = Some ann
   \<and> getRoom (u_current_q ann) (u_current_r ann) (u_server_code ann) arena = Inr (Some crash_site)
   \<and> getRoomItems (r_id crash_site) (u_server_code ann) arena = Inr [goblin]
   \<and> find (\<lambda>i. i_id i = ''e1'') [goblin] = Some goblin
   \<and> 0 < i_enemy_hp goblin
   \<and> distinct (map i_id (items arena))
   \<and> 1 + u_strength ann < 6 + i_enemy_attack goblin
   \<and> u_hp ann \<le> \<lceil>real_of_int \<bar>(1 + u_strength ann) - (6 + i_enemy_attack goblin)\<bar> / 2\<rceil>
   \<and> (\<exists>w'. world_of (combat_tick ''s1'' ''u1'' ''e1'' 0 1 6 arena) = Some w'
          \<and> getUser ''u1'' w'
              = Some (ann\<lparr>u_hp := 20, u_current_q := 0, u_current_r := 0, u_state := IDLE\<rparr>)
          \<and> map_option u_gold (getUser ''u1'' w') = Some 5
          \<and> items w' = [goblin]
          \<and> filter (\<lambda>se. is_combat_end (snd se)) (emitted arena w') = [(''s1'', CombatEnd Loss None)]
          \<and> intervals w' 0 = None
          \<and> \<not> isInCombat ''u1'' w')"
proof -
  note a = arena_reads(1-3) [where g = goblin, unfolded arena_reads(4)]
  note g = arena_goblin(1-5) [where x = 7, unfolded arena_goblin(8) arena_reads(4)]
    arena_goblin(6-7)
  have hp: "u_hp ann = 2" "u_max_hp ann = 20" "items arena = [goblin]"
    by (simp_all add: ann_def arena_def)
  have h7: "1 + u_strength ann < 6 + i_enemy_attack goblin" by (simp add: g)
  have h8: "u_hp ann
      \<le> \<lceil>real_of_int \<bar>(1 + u_strength ann) - (6 + i_enemy_attack goblin)\<bar> / 2\<rceil>"
    by (simp add: g hp)
  from combat_defeat_outcome [OF a(1) a(2) g(1) g(2) g(3) a(3) h7 h8, of "''s1''" 0]
  have "\<exists>w'. world_of (combat_tick ''s1'' ''u1'' ''e1'' 0 1 6 arena) = Some w'
          \<and> getUser ''u1'' w'
              = Some (ann\<lparr>u_hp := 20, u_current_q := 0, u_current_r := 0, u_state := IDLE\<rparr>)
          \<and> map_option u_gold (getUser ''u1'' w') = Some 5
          \<and> items w' = [goblin]
          \<and> filter (\<lambda>se. is_combat_end (snd se)) (emitted arena w') = [(''s1'', CombatEnd Loss None)]
          \<and> intervals w' 0 = None
          \<and> \<not> isInCombat ''u1'' w'"
    by (auto simp: hp g)
  with a(1,2,3) g(1,2,3) h7 h8 show ?thesis by blast
qed

subsection \<open>Item rows the program writes\<close>

text \<open>\<^verbatim>\<open>createItem\<close> is the only insert into the items table. The row it stores carries no
  \<open>is_infinite\<close> flag, whatever the caller passed.\<close>

lemma createItem_row:
  assumes "createItem new_id it w = Inr (row, w')"
  shows "row = it\<lparr>i_id := new_id, i_is_infinite := False\<rparr> \<and> items w' = items w @ [row]
       \<and> \<not> i_is_infinite row"
  using assms by (auto simp: createItem_def Let_def split: if_splits)

lemma wizard_snapshot_ends: "P w \<Longrightarrow> ends_in P (wizard_snapshot usr w)"
  unfolding wizard_snapshot_def Let_def
  by (intro ends_in_reading ends_in_deref) simp_all

text \<open>No update changes the \<open>xp_value\<close> of a row or gives it the flag.\<close>

lemma rows_as_written_updates:
  assumes "rows_as_written w"
  shows "rows_as_written (setItemOwner iid own rid w)"
    and "rows_as_written (updateItemEnemyHp iid hp w)"
    and "rows_as_written (deleteItem iid w)"
    and "rows_as_written (emit sock ev w)"
    and "rows_as_written (updateUserStats uid st w)"
    and "rows_as_written (updateUserState uid s w)"
    and "rows_as_written (updateUserPosition uid q r w)"
    and "rows_as_written (setTempItemData uid t w)"
  using assms by (auto simp: rows_as_written_def store_defs list_all_iff)

lemma rows_as_written_row:
  assumes "rows_as_written w" and "it \<in> set (items w)"
  shows "i_xp_value it \<noteq> 0 \<and> \<not> i_is_infinite it"
  using assms by (auto simp: rows_as_written_def list_all_iff)

text \<open>The commit of the wizard stores the \<open>xp_value\<close> 10 for an object that is no enemy and
  \<^verbatim>\<open>xpValue || 10\<close> for an enemy: never zero.\<close>

lemma createItem_commit_rows:
  assumes "rows_as_written w" and "i_xp_value it \<noteq> 0"
    and "\<And>w1. rows_as_written w1 \<Longrightarrow> rows_as_written (k w1)"
  shows "ends_in rows_as_written
           (case createItem new_id it w of
              Inl e \<Rightarrow> Throws e w
            | Inr (created, w1) \<Rightarrow> wizard_snapshot usr (k w1))"
proof (cases "createItem new_id it w")
  case (Inl e)
  then show ?thesis using assms(1) by simp
next
  case (Inr cw)
  obtain created w1 where cw: "cw = (created, w1)" by (cases cw)
  from createItem_row [OF Inr [unfolded cw]]
  have "items w1 = items w @ [it\<lparr>i_id := new_id, i_is_infinite := False\<rparr>]" by simp
  then have "rows_as_written w1" using assms(1,2) by (simp add: rows_as_written_def)
  then show ?thesis using Inr cw assms(3) by (simp add: wizard_snapshot_ends)
qed

lemma finishObjectCreation_rows:
  assumes "rows_as_written w"
  shows "ends_in rows_as_written (finishObjectCreation sock usr t new_id w)"
proof (cases "tid_name t")
  case None
  then show ?thesis using assms by (simp add: finishObjectCreation_def Let_def)
next
  case (Some name)
  note nm = this
  show ?thesis
  proof (cases "tid_verb t")
    case None
    then show ?thesis using assms nm by (simp add: finishObjectCreation_def Let_def)
  next
    case (Some verb)
    have xp: "(if tid_interactionType t = Some ENEMY
                then (case tid_xpValue t of None \<Rightarrow> 10 | Some v \<Rightarrow> if v = 0 then 10 else v)
                else 10) \<noteq> (0::int)"
      by (simp split: option.split)
    show ?thesis
      unfolding finishObjectCreation_def Let_def nm Some prod.case option.case
      by (rule createItem_commit_rows [OF assms])
         (simp_all only: item.simps xp rows_as_written_updates not_False_eq_True)
  qed
qed

subsection \<open>Resolution of a tick\<close>


lemma getItem_items: "items w' = items w \<Longrightarrow> getItem tid w' = getItem tid w"
  by (simp add: getItem_def)





subsection \<open>Command routing\<close>

lemma startsWith_creating:
  "st \<in> {CREATING_ROOM_TITLE, CREATING_ROOM_DESC, CREATING_ROOM_MOOD, CREATING_ROOM_SHROUD,
          CREATING_OBJ_CONFIRM, CREATING_OBJ_NAME, CREATING_OBJ_DESC, CREATING_OBJ_VERB,
          CREATING_OBJ_SUCCESS_MSG, CREATING_OBJ_TYPE, CREATING_OBJ_VALUE, CREATING_OBJ_CONTENTS,
          CREATING_OBJ_ENEMY_STATS, CREATING_OBJ_REQUIREMENT, CREATING_OBJ_SUPPLY_TYPE,
          CREATING_OBJ_VERB_CONFIRM}
   \<Longrightarrow> startsWith (state_name st) ''CREATING_''"
  by (auto simp: startsWith_def)

text \<open>
  Claim C8. For a connection bound to a stored user whose mode is one of the sixteen
  \<open>CREATING_*\<close> states or \<open>GENERATING_ANIMATIONS\<close>, the \<^verbatim>\<open>cmd:input\<close> handler does what the
  creation wizard's \<^verbatim>\<open>handleInput\<close> does on that command, followed by the snapshot the wizard
  asked for, and nothing else: the outcome is the same whatever the command is, whatever
  the random oracle and the fresh id are, and whatever the regenerate handler would do.
\<close>

theorem wizard_modes_route_to_wizard_only:
  assumes "getSession sock w = Some uid" and "uid \<noteq> []" and "getUser uid w = Some usr"
    and "u_state usr \<in>
           {CREATING_ROOM_TITLE, CREATING_ROOM_DESC, CREATING_ROOM_MOOD, CREATING_ROOM_SHROUD,
            CREATING_OBJ_CONFIRM, CREATING_OBJ_NAME, CREATING_OBJ_DESC, CREATING_OBJ_VERB,
            CREATING_OBJ_SUCCESS_MSG, CREATING_OBJ_TYPE, CREATING_OBJ_VALUE,
            CREATING_OBJ_CONTENTS, CREATING_OBJ_ENEMY_STATS, CREATING_OBJ_REQUIREMENT,
            CREATING_OBJ_SUPPLY_TYPE, CREATING_OBJ_VERB_CONFIRM, GENERATING_ANIMATIONS}"
  shows "cmd_input ext rnd new_id sock raw w =
           (case creation_handleInput ext sock usr raw w of
              Throws e w1 \<Rightarrow> Throws e w1
            | Hangs \<Rightarrow> Hangs
            | Returns result w1 \<Rightarrow> Returns () (emit_state sock result w1))
       \<and> cmd_input ext rnd new_id sock raw w =
           cmd_input (ext\<lparr>general_handleRegenerate := regen\<rparr>) rnd' new_id' sock raw w"
proof -
  have route: "startsWith (state_name (u_state usr)) ''CREATING_''
               \<or> u_state usr = GENERATING_ANIMATIONS"
    using assms(4) startsWith_creating [of "u_state usr"] by blast
  have "\<And>e r n. cmd_input e r n sock raw w =
           (case creation_handleInput e sock usr raw w of
              Throws e w1 \<Rightarrow> Throws e w1
            | Hangs \<Rightarrow> Hangs
            | Returns result w1 \<Rightarrow> Returns () (emit_state sock result w1))"
    using assms(1-3) route by (simp add: cmd_input_def)
  then show ?thesis by simp
qed

text \<open>A user who is naming an object types \<open>n\<close>: the wizard receives it, nobody moves.\<close>

theorem wizard_modes_route_to_wizard_only_witness:
  "getSession ''s1'' (arena\<lparr>users := [ann\<lparr>u_state := CREATING_OBJ_NAME\<rparr>, bob]\<rparr>) = Some ''u1''
   \<and> ''u1'' \<noteq> []
   \<and> getUser ''u1'' (arena\<lparr>users := [ann\<lparr>u_state := CREATING_OBJ_NAME\<rparr>, bob]\<rparr>)
        = Some (ann\<lparr>u_state := CREATING_OBJ_NAME\<rparr>)
   \<and> u_state (ann\<lparr>u_state := CREATING_OBJ_NAME\<rparr>) \<in>
           {CREATING_ROOM_TITLE, CREATING_ROOM_DESC, CREATING_ROOM_MOOD, CREATING_ROOM_SHROUD,
            CREATING_OBJ_CONFIRM, CREATING_OBJ_NAME, CREATING_OBJ_DESC, CREATING_OBJ_VERB,
            CREATING_OBJ_SUCCESS_MSG, CREATING_OBJ_TYPE, CREATING_OBJ_VALUE,
            CREATING_OBJ_CONTENTS, CREATING_OBJ_ENEMY_STATS, CREATING_OBJ_REQUIREMENT,
            CREATING_OBJ_SUPPLY_TYPE, CREATING_OBJ_VERB_CONFIRM, GENERATING_ANIMATIONS}
   \<and> cmd_input
         \<lparr>creation_handleInput =
            (\<lambda>sock usr raw w. Returns \<lparr>handled = True, shouldEmitState = None\<rparr>
                                (emit sock (GameLog raw Prompt None) w)),
          general_handleRegenerate = (\<lambda>sock usr mood w. w)\<rparr>
         (\<lambda>k. k) ''id1'' ''s1'' ''n'' (arena\<lparr>users := [ann\<lparr>u_state := CREATING_OBJ_NAME\<rparr>, bob]\<rparr>)
       = Returns () (emit ''s1'' (GameLog ''n'' Prompt None)
                      (arena\<lparr>users := [ann\<lparr>u_state := CREATING_OBJ_NAME\<rparr>, bob]\<rparr>))"
proof -
  let ?w = "arena\<lparr>users := [ann\<lparr>u_state := CREATING_OBJ_NAME\<rparr>, bob]\<rparr>"
  have h1: "getSession ''s1'' ?w = Some ''u1''" by (simp add: getSession_def arena_def)
  have h2: "''u1'' \<noteq> []" by simp
  have h3: "getUser ''u1'' ?w = Some (ann\<lparr>u_state := CREATING_OBJ_NAME\<rparr>)"
    by (simp add: getUser_def ann_def)
  have h4: "u_state (ann\<lparr>u_state := CREATING_OBJ_NAME\<rparr>) \<in>
           {CREATING_ROOM_TITLE, CREATING_ROOM_DESC, CREATING_ROOM_MOOD, CREATING_ROOM_SHROUD,
            CREATING_OBJ_CONFIRM, CREATING_OBJ_NAME, CREATING_OBJ_DESC, CREATING_OBJ_VERB,
            CREATING_OBJ_SUCCESS_MSG, CREATING_OBJ_TYPE, CREATING_OBJ_VALUE,
            CREATING_OBJ_CONTENTS, CREATING_OBJ_ENEMY_STATS, CREATING_OBJ_REQUIREMENT,
            CREATING_OBJ_SUPPLY_TYPE, CREATING_OBJ_VERB_CONFIRM, GENERATING_ANIMATIONS}"
    by simp
  from wizard_modes_route_to_wizard_only [OF h1 h2 h3 h4, THEN conjunct1]
  have "cmd_input
         \<lparr>creation_handleInput =
            (\<lambda>sock usr raw w. Returns \<lparr>handled = True, shouldEmitState = None\<rparr>
                                (emit sock (GameLog raw Prompt None) w)),
          general_handleRegenerate = (\<lambda>sock usr mood w. w)\<rparr>
         (\<lambda>k. k) ''id1'' ''s1'' ''n'' ?w
       = Returns () (emit ''s1'' (GameLog ''n'' Prompt None) ?w)"
    by (simp add: emit_state_def)
  with h1 h2 h3 h4 show ?thesis by blast
qed

lemma handleMove_not_idle:
  "u_state usr \<noteq> IDLE \<Longrightarrow>
   handleMove sock usr input w =
     Returns \<lparr>handled = True, shouldEmitState = None\<rparr>
       (emit sock (GameLog (''Cannot move while in '' @ state_name (u_state usr) @ '' state.'')
                     Error None) w)"
  by (simp add: handleMove_def)

lemma handleMove_unparsed_idle:
  "u_state usr = IDLE \<Longrightarrow> parseDirection input = None \<Longrightarrow>
   handleMove sock usr input w = Returns \<lparr>handled = False, shouldEmitState = None\<rparr> w"
  by (simp add: handleMove_def)

text \<open>
  Claim C3 does not hold of the code. For a user who is in \<open>COMBAT\<close> mode, \<open>retreat\<close> is no
  direction, and yet \<open>handleMove\<close> returns \<open>handled = true\<close> with the message that the user
  cannot move: the mode is tested before the input is parsed. The dispatcher therefore
  never reaches its own \<open>retreat\<close> branch for a user who is fighting.
\<close>

theorem handleMove_shadows_retreat_in_combat:
  "parseDirection ''retreat'' = None
   \<and> u_state ann = COMBAT
   \<and> handleMove ''s1'' ann ''retreat'' arena =
       Returns \<lparr>handled = True, shouldEmitState = None\<rparr>
         (emit ''s1'' (GameLog ''Cannot move while in COMBAT state.'' Error None) arena)
   \<and> cmd_input ext rnd new_id ''s1'' ''retreat'' arena =
       Returns () (emit ''s1'' (GameLog ''Cannot move while in COMBAT state.'' Error None) arena)"
proof -
  have p: "parseDirection ''retreat'' = None"
    by (simp add: parseDirection_def toLowerCase_def lower_char_def trim_def is_space_def Let_def)
  have st: "u_state ann = COMBAT" by (simp add: ann_def)
  have mv: "handleMove ''s1'' ann ''retreat'' arena =
       Returns \<lparr>handled = True, shouldEmitState = None\<rparr>
         (emit ''s1'' (GameLog ''Cannot move while in COMBAT state.'' Error None) arena)"
    by (simp add: handleMove_not_idle st)
  have cmd: "toLowerCase (trim ''retreat'') = ''retreat''"
    by (simp add: toLowerCase_def lower_char_def trim_def is_space_def)
  have "cmd_input ext rnd new_id ''s1'' ''retreat'' arena =
       Returns () (emit ''s1'' (GameLog ''Cannot move while in COMBAT state.'' Error None) arena)"
  proof -
    have gs: "getSession ''s1'' arena = Some ''u1''" by (simp add: getSession_def arena_def)
    have gu: "getUser ''u1'' arena = Some ann" by (simp add: getUser_def arena_def ann_def)
    show ?thesis
      unfolding cmd_input_def
      by (simp add: gs gu st cmd startsWith_def Let_def route_move_def mv if_handled_def
          emit_state_def)
  qed
  with p st mv show ?thesis by simp
qed

subsection \<open>Disconnection\<close>

lemma disconnect_discards_scratch:
  assumes "getSession sock w = Some uid" and "uid \<noteq> []"
  shows "getTempRoomData uid (on_disconnect sock w) = None"
    and "getTempItemData uid (on_disconnect sock w) = None"
    and "getSession sock (on_disconnect sock w) = None"
  using assms
  by (simp_all add: on_disconnect_def deleteSession_def getSession_def getTempRoomData_def
      getTempItemData_def Let_def)

lemma disconnect_frame:
  "users (on_disconnect sock w) = users w"
  "rooms (on_disconnect sock w) = rooms w"
  "items (on_disconnect sock w) = items w"
  "intervals (on_disconnect sock w) = intervals w"
  "activeBattles (on_disconnect sock w) = activeBattles w"
  "battleData (on_disconnect sock w) = battleData w"
  "outbox (on_disconnect sock w) = outbox w"
  by (simp_all add: on_disconnect_def deleteSession_def Let_def split: option.splits)

text \<open>
  Claim C2 does not hold of the code. The \<^verbatim>\<open>disconnect\<close> handler only deletes the session,
  which discards the user's wizard scratch data; it leaves the timers, the battle registry
  and the items as they are. After the connection \<open>s1\<close> of \<open>ann\<close> is gone, \<open>ann\<close> is still in
  combat, the interval is still live, and when it fires with rolls 4 and 2 the tick lowers
  the goblin's stored HP from 3 to 1.
\<close>

theorem disconnect_leaves_combat_timer_running:
  "intervals (on_disconnect sock w) = intervals w
   \<and> activeBattles (on_disconnect sock w) = activeBattles w
   \<and> battleData (on_disconnect sock w) = battleData w
   \<and> items (on_disconnect sock w) = items w
   \<and> isInCombat ''u1'' (on_disconnect ''s1'' arena)
   \<and> intervals (on_disconnect ''s1'' arena) 0
       = Some \<lparr>tc_socket = ''s1'', tc_user_id = ''u1'', tc_target_id = ''e1''\<rparr>
   \<and> getItem ''e1'' arena = Some goblin
   \<and> i_enemy_hp goblin = 3
   \<and> Option.bind (world_of (fire_interval 0 4 2 (on_disconnect ''s1'' arena))) (getItem ''e1'')
       = Some (goblin\<lparr>i_enemy_hp := 1\<rparr>)"
proof -
  let ?w = "on_disconnect ''s1'' arena"
  have combat: "isInCombat ''u1'' ?w"
    by (simp add: isInCombat_def disconnect_frame arena_def)
  have live: "intervals ?w 0 = Some \<lparr>tc_socket = ''s1'', tc_user_id = ''u1'', tc_target_id = ''e1''\<rparr>"
    by (simp add: disconnect_frame arena_def)
  have gu: "getUser ''u1'' ?w = Some ann"
    by (simp add: getUser_def disconnect_frame arena_def ann_def)
  have gr: "getRoom (u_current_q ann) (u_current_r ann) (u_server_code ann) ?w = Inr (Some crash_site)"
    by (simp add: getRoom_def disconnect_frame arena_def ann_def crash_site_def)
  have gi: "getRoomItems (r_id crash_site) (u_server_code ann) ?w = Inr [goblin]"
    by (simp add: getRoomItems_def disconnect_frame arena_def ann_def crash_site_def goblin_def)
  have fe: "find (\<lambda>i. i_id i = ''e1'') [goblin] = Some goblin" by (simp add: goblin_def)
  have al: "0 < i_enemy_hp goblin" by (simp add: goblin_def)
  have sto: "getItem (i_id goblin) ?w = Some goblin"
    by (simp add: getItem_def disconnect_frame arena_def goblin_def)
  have g0: "getItem ''e1'' arena = Some goblin" by (simp add: getItem_def arena_def goblin_def)
  have v: "u_strength ann = 0" "i_enemy_attack goblin = 0" "u_hp ann = 2" "i_enemy_hp goblin = 3"
    "i_id goblin = ''e1''"
    by (simp_all add: ann_def goblin_def)
  have w1: "snd (resolve_rolls ann goblin 4 2 ?w) = updateItemEnemyHp ''e1'' 1 ?w"
    using tick_fight_emits(2) [OF gu sto, where dp = 4 and de = 2] by (simp add: v)
  have "fire_interval 0 4 2 ?w = tick_fight ''s1'' ''u1'' 0 ann goblin 4 2 ?w"
    by (simp add: fire_interval_def live combat_tick_reaches_fight [OF gu gr gi fe al])
  also have "\<dots> = Returns () (emit ''s1'' (CombatUpdate
             \<lparr>playerHp = 2, playerMaxHp = u_max_hp ann, enemyHp = 1,
              enemyMaxHp = i_enemy_max_hp goblin, playerRoll = 4, enemyRoll = 2,
              damage = 2, source = SrcPlayer\<rparr>) (updateItemEnemyHp ''e1'' 1 ?w))"
    unfolding tick_fight_branches [OF gu sto] using w1 by (simp add: v)
  finally have "Option.bind (world_of (fire_interval 0 4 2 ?w)) (getItem ''e1'')
      = Some (goblin\<lparr>i_enemy_hp := 1\<rparr>)"
    using sto by (simp add: getItem_updateItemEnemyHp v)
  with combat live g0 v(4) show ?thesis by (simp add: disconnect_frame)
qed

subsection \<open>Verb obfuscation\<close>

text \<open>When fewer positions can be picked than have to be hidden, no run of the loop ends.\<close>

lemma obfuscate_loop_stuck:
  assumes "obfuscate_loop rnd chars n k indices = Some res"
  shows "\<not> (chars \<noteq> [] \<and> distinct indices \<and> set indices \<subseteq> hideable chars
            \<and> int (card (hideable chars)) < n)"
proof (rule obfuscate_loop.raw_induct
    [where P = "\<lambda>rnd chars n k indices res. \<not> (chars \<noteq> [] \<and> distinct indices \<and>
        set indices \<subseteq> hideable chars \<and> int (card (hideable chars)) < n)", OF _ assms], goal_cases)
  case (1 f rnd chars n k indices res)
  show ?case
  proof
    assume inv: "chars \<noteq> [] \<and> distinct indices \<and> set indices \<subseteq> hideable chars
                 \<and> int (card (hideable chars)) < n"
    have fin: "finite (hideable chars)" by (simp add: hideable_def)
    have "length indices = card (set indices)" using inv by (simp add: distinct_card)
    also have "\<dots> \<le> card (hideable chars)" using inv fin by (simp add: card_mono)
    finally have lt: "int (length indices) < n" using inv by linarith
    define idx where "idx = random_index rnd k (length chars)"
    have idx_lt: "idx < length chars" using inv by (simp add: idx_def random_index_def)
    define indices' where
      "indices' = (if char_at chars idx = Some CHR '' '' then indices else List.insert idx indices)"
    from 1(2) lt have call: "f rnd chars n (Suc k) indices' = Some res"
      by (auto simp: Let_def idx_def indices'_def)
    have "distinct indices'" using inv by (simp add: indices'_def)
    moreover have "set indices' \<subseteq> hideable chars"
      using inv idx_lt by (auto simp: indices'_def hideable_def char_at_def)
    ultimately show False using 1(1) [OF call] inv by simp
  qed
qed

lemma obfuscateText_stuck:
  assumes "shroudLevel \<noteq> 0"
    and "int (card (hideable text)) < min shroudLevel (int (length text div 2))"
  shows "obfuscateText rnd k text shroudLevel = None"
proof -
  have ne: "text \<noteq> []" using assms(2) by auto
  have "obfuscate_loop rnd text (min shroudLevel (int (length text div 2))) k [] = None"
  proof (cases "obfuscate_loop rnd text (min shroudLevel (int (length text div 2))) k []")
    case (Some res)
    from obfuscate_loop_stuck [OF Some] ne assms(2) show ?thesis by simp
  qed simp
  with assms(1) show ?thesis by (simp add: obfuscateText_def Let_def)
qed

lemma hideable_Cons:
  "hideable (c # cs) = (if c = CHR '' '' then {} else {0}) \<union> Suc ` hideable cs"
proof -
  have "i \<in> hideable (c # cs) \<longleftrightarrow> i \<in> (if c = CHR '' '' then {} else {0}) \<union> Suc ` hideable cs" for i
    by (cases i) (auto simp: hideable_def)
  then show ?thesis by blast
qed

lemma card_hideable: "card (hideable chars) = length (filter (\<lambda>c. c \<noteq> CHR '' '') chars)"
proof (induction chars)
  case Nil
  then show ?case by (simp add: hideable_def)
next
  case (Cons c cs)
  have fin: "finite (Suc ` hideable cs)" by (simp add: hideable_def)
  have [simp]: "card (Suc ` hideable cs) = card (hideable cs)" by (simp add: card_image)
  have "0 \<notin> Suc ` hideable cs" by auto
  then show ?case using Cons fin by (simp add: hideable_Cons)
qed

lemma obfuscateText_hangs:
  assumes "shroudLevel \<noteq> 0"
    and "int (length (filter (\<lambda>c. c \<noteq> CHR '' '') text)) < min shroudLevel (int (length text div 2))"
  shows "obfuscateText rnd k text shroudLevel = None"
  using assms by (intro obfuscateText_stuck) (simp_all add: card_hideable)

text \<open>
  Claim C10 does not hold of the code. On a text of two spaces with shroud level 1, and on
  the verb \<open>x    y\<close> (two letters, four spaces between them) with shroud level 3, the loop
  of \<open>obfuscateText\<close> never ends, whatever \<^verbatim>\<open>Math.random\<close> returns: there are fewer
  non-space positions than positions to hide. The help command of a user who stands in
  a room of shroud level 3 that holds an object with that verb never returns.
\<close>

theorem obfuscateText_hangs_on_sparse_text:
  "obfuscateText rnd k ''  '' 1 = None
   \<and> obfuscateText rnd k ''x    y'' 3 = None
   \<and> r_shroud_level crash_site = 3
   \<and> handleHelp rnd ''s2'' bob (arena\<lparr>items := [goblin\<lparr>i_interact_verb := ''x    y''\<rparr>]\<rparr>) = Hangs"
proof -
  have a: "obfuscateText rnd k ''  '' 1 = None" for k
    by (rule obfuscateText_hangs) simp_all
  have b: "obfuscateText rnd k ''x    y'' 3 = None" for k
    by (rule obfuscateText_hangs) simp_all
  have c: "r_shroud_level crash_site = 3" by (simp add: crash_site_def)
  have "handleHelp rnd ''s2'' bob (arena\<lparr>items := [goblin\<lparr>i_interact_verb := ''x    y''\<rparr>]\<rparr>) = Hangs"
    by (simp add: handleHelp_def reading_def getRoom_def getRoomItems_def real_room_def
        startsWith_def arena_def bob_def crash_site_def goblin_def b)
  with a b c show ?thesis by simp
qed

subsection \<open>Gates\<close>

text \<open>A gate whose required-item reference is empty is not gated at all.\<close>

lemma interaction_gate_without_requirement:
  "\<not> truthy (i_required_item_id it) \<Longrightarrow>
   interaction_gate sock usr currentRoom verb it new_id w
     = interaction_effect sock usr currentRoom verb it new_id w"
  by (simp add: interaction_gate_def)

lemmas scene_defs = ann_def bob_def crash_site_def goblin_def gate_draft_def

lemmas read_defs = getUser_def getRoom_def getRoomItems_def getVisibleRooms_def
  getUserInventory_def getItemByName_def getTempItemData_def reading_def deref_def

lemmas text_defs = trim_def is_space_def toLowerCase_def lower_char_def startsWith_def
  interpolate_def

lemma gate_step_requirement:
  assumes "users w = [ann\<lparr>u_state := CREATING_OBJ_REQUIREMENT\<rparr>, bob]" "rooms w = [crash_site]"
    "items w = [goblin]" "tempItemDataMap w ''u1'' = Some gate_draft" "animations w = []"
  shows "\<exists>w1. world_of (handleObjRequirement ''s1'' (ann\<lparr>u_state := CREATING_OBJ_REQUIREMENT\<rparr>) ''key'' w)
            = Some w1
     \<and> users w1 = [ann\<lparr>u_state := CREATING_OBJ_VERB_CONFIRM\<rparr>, bob] \<and> rooms w1 = [crash_site]
     \<and> items w1 = [goblin]
     \<and> tempItemDataMap w1 ''u1'' = Some (gate_draft\<lparr>tid_requiredItemName := Some ''key''\<rparr>)
     \<and> animations w1 = []
     \<and> (\<exists>es. outbox w1 = outbox w @ (''s1'', GameLog
          ''Warning: Item \"key\" not found in this room. Gate will be created but may not work until the item exists.''
          Error None) # es)"
  using assms
  by (simp add: handleObjRequirement_def wizard_snapshot_def Let_def read_defs text_defs
      scene_defs store_defs)

lemma gate_step_verb:
  assumes "users w = [ann\<lparr>u_state := CREATING_OBJ_VERB_CONFIRM\<rparr>, bob]" "rooms w = [crash_site]"
    "items w = [goblin]"
    "tempItemDataMap w ''u1'' = Some (gate_draft\<lparr>tid_requiredItemName := Some ''key''\<rparr>)"
    "animations w = []"
  shows "\<exists>w1. world_of (handleObjVerbConfirm ''s1'' (ann\<lparr>u_state := CREATING_OBJ_VERB_CONFIRM\<rparr>) ''y'' w)
            = Some w1
     \<and> users w1 = [ann\<lparr>u_state := CREATING_OBJ_SUCCESS_MSG\<rparr>, bob] \<and> rooms w1 = [crash_site]
     \<and> items w1 = [goblin]
     \<and> tempItemDataMap w1 ''u1'' = Some (gate_draft\<lparr>tid_requiredItemName := Some ''key''\<rparr>)
     \<and> animations w1 = []
     \<and> (\<exists>es. outbox w1 = outbox w @ es)"
  using assms
  by (simp add: handleObjVerbConfirm_def wizard_snapshot_def Let_def read_defs text_defs
      scene_defs store_defs)

lemma gate_step_commit:
  assumes "users w = [ann\<lparr>u_state := CREATING_OBJ_SUCCESS_MSG\<rparr>, bob]" "rooms w = [crash_site]"
    "items w = [goblin]"
    "tempItemDataMap w ''u1'' = Some (gate_draft\<lparr>tid_requiredItemName := Some ''key''\<rparr>)"
    "animations w = []"
  shows "\<exists>w1. world_of (handleObjSuccessMsg ''s1'' (ann\<lparr>u_state := CREATING_OBJ_SUCCESS_MSG\<rparr>) [] ''g1'' w)
            = Some w1
     \<and> users w1 = [ann\<lparr>u_state := CREATING_OBJ_CONFIRM\<rparr>, bob] \<and> rooms w1 = [crash_site]
     \<and> items w1 = [goblin, iron_gate]
     \<and> animations w1 = []
     \<and> (\<exists>es. outbox w1 = outbox w @ es)"
  using assms
  by (simp add: handleObjSuccessMsg_def finishObjectCreation_def createItem_def
      wizard_snapshot_def Let_def read_defs text_defs scene_defs store_defs iron_gate_def)


text \<open>
  Claim C6 does not hold of the code. The author names a key that matches no item of the
  room: the wizard warns, stores no required item, and commits the gate with an empty
  \<open>required_item_id\<close>. When \<open>bob\<close>, whose inventory is empty, then types \<open>open gate\<close>, the
  interaction is handled and succeeds with \<open>You open the gate.\<close>; no message about a missing
  item is sent.
\<close>

theorem unmatched_gate_opens_without_key:
  "\<exists>w3 w4 snap.
      gate_authored = Some w3
    \<and> (''s1'', GameLog
          ''Warning: Item \"key\" not found in this room. Gate will be created but may not work until the item exists.''
          Error None) \<in> set (outbox w3)
    \<and> items w3 = [goblin, iron_gate]
    \<and> i_required_item_id iron_gate = None
    \<and> getUserInventory ''u2'' ''isle'' w3 = Inr []
    \<and> handleInteraction ''s2'' bob ''open gate'' ''id9'' w3
        = Returns \<lparr>handled = True, shouldEmitState = Some snap\<rparr> w4
    \<and> emitted w3 w4 = [(''s2'', GameLog ''You open the gate.'' Info None)]"
proof -
  have g0: "getUser ''u1'' gate_scene = Some (ann\<lparr>u_state := CREATING_OBJ_REQUIREMENT\<rparr>)"
    by (simp add: getUser_def gate_scene_def ann_def)
  have "users gate_scene = [ann\<lparr>u_state := CREATING_OBJ_REQUIREMENT\<rparr>, bob]"
    "rooms gate_scene = [crash_site]" "items gate_scene = [goblin]"
    "tempItemDataMap gate_scene ''u1'' = Some gate_draft" "animations gate_scene = []"
    by (simp_all add: gate_scene_def)
  note s0 = this
  from gate_step_requirement [OF s0] obtain w1 where
    r1: "world_of (handleObjRequirement ''s1'' (ann\<lparr>u_state := CREATING_OBJ_REQUIREMENT\<rparr>) ''key''
           gate_scene) = Some w1"
    and s1: "users w1 = [ann\<lparr>u_state := CREATING_OBJ_VERB_CONFIRM\<rparr>, bob]" "rooms w1 = [crash_site]"
      "items w1 = [goblin]"
      "tempItemDataMap w1 ''u1'' = Some (gate_draft\<lparr>tid_requiredItemName := Some ''key''\<rparr>)"
      "animations w1 = []"
    and e1: "\<exists>es. outbox w1 = outbox gate_scene @ (''s1'', GameLog
          ''Warning: Item \"key\" not found in this room. Gate will be created but may not work until the item exists.''
          Error None) # es"
    by blast
  have g1: "getUser ''u1'' w1 = Some (ann\<lparr>u_state := CREATING_OBJ_VERB_CONFIRM\<rparr>)"
    by (simp add: getUser_def s1 ann_def)
  from gate_step_verb [OF s1] obtain w2 where
    r2: "world_of (handleObjVerbConfirm ''s1'' (ann\<lparr>u_state := CREATING_OBJ_VERB_CONFIRM\<rparr>) ''y'' w1)
           = Some w2"
    and s2: "users w2 = [ann\<lparr>u_state := CREATING_OBJ_SUCCESS_MSG\<rparr>, bob]" "rooms w2 = [crash_site]"
      "items w2 = [goblin]"
      "tempItemDataMap w2 ''u1'' = Some (gate_draft\<lparr>tid_requiredItemName := Some ''key''\<rparr>)"
      "animations w2 = []"
    and o2: "\<exists>es. outbox w2 = outbox w1 @ es"
    by blast
  have g2: "getUser ''u1'' w2 = Some (ann\<lparr>u_state := CREATING_OBJ_SUCCESS_MSG\<rparr>)"
    by (simp add: getUser_def s2 ann_def)
  from gate_step_commit [OF s2] obtain w3 where
    r3: "world_of (handleObjSuccessMsg ''s1'' (ann\<lparr>u_state := CREATING_OBJ_SUCCESS_MSG\<rparr>) [] ''g1'' w2)
           = Some w3"
    and s3: "users w3 = [ann\<lparr>u_state := CREATING_OBJ_CONFIRM\<rparr>, bob]" "rooms w3 = [crash_site]"
      "items w3 = [goblin, iron_gate]" "animations w3 = []"
    and o3: "\<exists>es. outbox w3 = outbox w2 @ es"
    by blast
  have authored: "gate_authored = Some w3"
    by (simp add: gate_authored_def next_command_def g0 r1 g1 r2 g2 r3)
  have warn: "(''s1'', GameLog
          ''Warning: Item \"key\" not found in this room. Gate will be created but may not work until the item exists.''
          Error None) \<in> set (outbox w3)"
    using e1 o2 o3 by auto
  have req: "i_required_item_id iron_gate = None" by (simp add: iron_gate_def)
  have inv: "getUserInventory ''u2'' ''isle'' w3 = Inr []"
    by (simp add: getUserInventory_def s3 goblin_def iron_gate_def)
  have "\<exists>w4 snap. handleInteraction ''s2'' bob ''open gate'' ''id9'' w3
        = Returns \<lparr>handled = True, shouldEmitState = Some snap\<rparr> w4
      \<and> emitted w3 w4 = [(''s2'', GameLog ''You open the gate.'' Info None)]"
    by (simp add: handleInteraction_def resolve_item_def interaction_gate_def
        interaction_effect_def interaction_finish_def real_room_def getItemAnimation_def
        Let_def read_defs text_defs scene_defs iron_gate_def s3 store_defs emitted_def)
  with authored warn s3(3) req inv show ?thesis by blast
qed

subsection \<open>Picking items up\<close>

lemma users_frame [simp]:
  "users (emit sock ev w) = users w"
  "users (setItemOwner iid own rid w) = users w"
  "users (cloneItemForUser nid it uid w) = users w"
  by (simp_all add: store_defs)

lemma items_emit_only [simp]:
  "rooms (emit sock ev w) = rooms w"
  "outbox (setItemOwner iid own rid w) = outbox w"
  "outbox (cloneItemForUser nid it uid w) = outbox w"
  by (simp_all add: store_defs)

lemma interaction_finish_effect:
  "ends_in (\<lambda>w'. users w' = users w \<and> items w' = items w \<and> (\<exists>es. outbox w' = outbox w @ es))
     (interaction_finish sock usr rm it msg w)"
  unfolding interaction_finish_def Let_def
  by (intro ends_in_reading ends_in_deref) (simp_all split: option.splits)

text \<open>What the \<open>ITEM\<close> effect does with a row that carries no \<open>is_infinite\<close> flag: a row
  that lies in a room is moved (owner set to the user, room cleared, no row added), after
  which no room-item query returns it and an attempt on the moved row is rejected; a row
  that lies in no room is rejected with the message that the user already has it.\<close>

lemma pickup_moves_or_rejects:
  assumes "i_effect_type it = ITEM" and "\<not> i_is_infinite it"
  shows "(truthy (i_room_id it) \<longrightarrow>
           (\<exists>w'. world_of (interaction_effect sock usr rm verb it new_id w) = Some w'
              \<and> items w' = map (\<lambda>i. if i_id i = i_id it
                                      then i\<lparr>i_owner_id := Some (u_id usr), i_room_id := None\<rparr>
                                      else i) (items w)
              \<and> users w' = users w
              \<and> (\<forall>roomId sc. i_id it \<notin> i_id ` (case getRoomItems roomId sc w' of
                                                     Inl e \<Rightarrow> {} | Inr l \<Rightarrow> set l))
              \<and> interaction_effect sock2 usr2 rm verb
                   (it\<lparr>i_owner_id := Some (u_id usr), i_room_id := None\<rparr>) new_id2 w'
                 = Returns \<lparr>handled = True, shouldEmitState = None\<rparr>
                     (emit sock2 (GameLog (''You already have the '' @ i_name it @ ''.'')
                                    Error None) w')))
       \<and> (\<not> truthy (i_room_id it) \<longrightarrow>
           interaction_effect sock usr rm verb it new_id w
             = Returns \<lparr>handled = True, shouldEmitState = None\<rparr>
                 (emit sock (GameLog (''You already have the '' @ i_name it @ ''.'') Error None) w))"
proof (intro conjI impI)
  assume h: "truthy (i_room_id it)"
  let ?m = "it\<lparr>i_owner_id := Some (u_id usr), i_room_id := None\<rparr>"
  have e1: "interaction_effect sock usr rm verb it new_id w
      = interaction_finish sock usr rm it (''You picked up the '' @ i_name it @ ''.'')
          (setItemOwner (i_id it) (Some (u_id usr)) None w)"
    using assms h by (simp add: interaction_effect_def)
  from ends_in_world [OF interaction_finish_effect] e1
  obtain w' where w': "world_of (interaction_effect sock usr rm verb it new_id w) = Some w'"
    and u': "users w' = users (setItemOwner (i_id it) (Some (u_id usr)) None w)"
    and i': "items w' = items (setItemOwner (i_id it) (Some (u_id usr)) None w)"
    by metis
  have its: "items w' = map (\<lambda>i. if i_id i = i_id it
                                      then i\<lparr>i_owner_id := Some (u_id usr), i_room_id := None\<rparr>
                                      else i) (items w)"
    by (simp add: i' setItemOwner_def)
  have gone: "\<forall>roomId sc. i_id it \<notin> i_id ` (case getRoomItems roomId sc w' of
                                                     Inl e \<Rightarrow> {} | Inr l \<Rightarrow> set l)"
    by (auto simp: getRoomItems_def its split: if_splits)
  have again: "interaction_effect sock2 usr2 rm verb ?m new_id2 w'
                 = Returns \<lparr>handled = True, shouldEmitState = None\<rparr>
                     (emit sock2 (GameLog (''You already have the '' @ i_name it @ ''.'')
                                    Error None) w')"
    using assms by (simp add: interaction_effect_def)
  show "\<exists>w'. world_of (interaction_effect sock usr rm verb it new_id w) = Some w'
              \<and> items w' = map (\<lambda>i. if i_id i = i_id it
                                      then i\<lparr>i_owner_id := Some (u_id usr), i_room_id := None\<rparr>
                                      else i) (items w)
              \<and> users w' = users w
              \<and> (\<forall>roomId sc. i_id it \<notin> i_id ` (case getRoomItems roomId sc w' of
                                                     Inl e \<Rightarrow> {} | Inr l \<Rightarrow> set l))
              \<and> interaction_effect sock2 usr2 rm verb ?m new_id2 w'
                 = Returns \<lparr>handled = True, shouldEmitState = None\<rparr>
                     (emit sock2 (GameLog (''You already have the '' @ i_name it @ ''.'')
                                    Error None) w')"
    using w' its u' gone again by auto
next
  assume "\<not> truthy (i_room_id it)"
  then show "interaction_effect sock usr rm verb it new_id w
             = Returns \<lparr>handled = True, shouldEmitState = None\<rparr>
                 (emit sock (GameLog (''You already have the '' @ i_name it @ ''.'') Error None) w)"
    using assms by (simp add: interaction_effect_def)
qed

text \<open>The conditions under which \<open>handleInteraction\<close> reaches its effect switch with the
  item \<open>it\<close>.\<close>

lemma handleInteraction_reaches_effect:
  assumes "split_ws (trim command) = p0 # rest" and "rest \<noteq> []" and "p0 \<noteq> []"
    and "toLowerCase p0 \<notin> set [''go'', ''help'']"
    and "getRoom (u_current_q usr) (u_current_r usr) (u_server_code usr) w = Inr (Some rm)"
    and "\<not> startsWith (r_id rm) ''void-''"
    and "resolve_item usr rm (join_space rest) w = Inr (Some it)"
    and "toLowerCase (i_interact_verb it) = toLowerCase p0"
    and "\<not> truthy (i_required_item_id it)"
  shows "handleInteraction sock usr command new_id w
         = interaction_effect sock usr rm (toLowerCase p0) it new_id w"
  using assms
  by (simp add: handleInteraction_def Let_def reading_def real_room_def interaction_gate_def)

lemmas torch_defs = ann_def bob_def cat_def crash_site_def goblin_def torch_draft_def

lemma torch_step_supply:
  assumes "users w = [ann\<lparr>u_state := CREATING_OBJ_SUPPLY_TYPE\<rparr>, bob, cat]" "rooms w = [crash_site]"
    "items w = [goblin]" "tempItemDataMap w ''u1'' = Some torch_draft" "animations w = []"
  shows "\<exists>w1. world_of (handleObjSupplyType ''s1'' (ann\<lparr>u_state := CREATING_OBJ_SUPPLY_TYPE\<rparr>) ''2'' w)
            = Some w1
     \<and> users w1 = [ann\<lparr>u_state := CREATING_OBJ_VERB_CONFIRM\<rparr>, bob, cat] \<and> rooms w1 = [crash_site]
     \<and> items w1 = [goblin]
     \<and> tempItemDataMap w1 ''u1'' = Some (torch_draft\<lparr>tid_isInfinite := Some True\<rparr>)
     \<and> animations w1 = []"
  using assms
  by (simp add: handleObjSupplyType_def wizard_snapshot_def Let_def read_defs text_defs
      torch_defs store_defs parseInt_def is_digit_def digits_val_def digit_val_def)

lemma torch_step_verb:
  assumes "users w = [ann\<lparr>u_state := CREATING_OBJ_VERB_CONFIRM\<rparr>, bob, cat]" "rooms w = [crash_site]"
    "items w = [goblin]"
    "tempItemDataMap w ''u1'' = Some (torch_draft\<lparr>tid_isInfinite := Some True\<rparr>)"
    "animations w = []"
  shows "\<exists>w1. world_of (handleObjVerbConfirm ''s1'' (ann\<lparr>u_state := CREATING_OBJ_VERB_CONFIRM\<rparr>) ''y'' w)
            = Some w1
     \<and> users w1 = [ann\<lparr>u_state := CREATING_OBJ_SUCCESS_MSG\<rparr>, bob, cat] \<and> rooms w1 = [crash_site]
     \<and> items w1 = [goblin]
     \<and> tempItemDataMap w1 ''u1'' = Some (torch_draft\<lparr>tid_isInfinite := Some True\<rparr>)
     \<and> animations w1 = []"
  using assms
  by (simp add: handleObjVerbConfirm_def wizard_snapshot_def Let_def read_defs text_defs
      torch_defs store_defs)

lemma torch_step_commit:
  assumes "users w = [ann\<lparr>u_state := CREATING_OBJ_SUCCESS_MSG\<rparr>, bob, cat]" "rooms w = [crash_site]"
    "items w = [goblin]"
    "tempItemDataMap w ''u1'' = Some (torch_draft\<lparr>tid_isInfinite := Some True\<rparr>)"
    "animations w = []"
  shows "\<exists>w1. world_of (handleObjSuccessMsg ''s1'' (ann\<lparr>u_state := CREATING_OBJ_SUCCESS_MSG\<rparr>) [] ''t1'' w)
            = Some w1
     \<and> users w1 = [ann\<lparr>u_state := CREATING_OBJ_CONFIRM\<rparr>, bob, cat] \<and> rooms w1 = [crash_site]
     \<and> items w1 = [goblin, torch]
     \<and> animations w1 = []"
  using assms
  by (simp add: handleObjSuccessMsg_def finishObjectCreation_def createItem_def
      wizard_snapshot_def Let_def read_defs text_defs torch_defs store_defs torch_def)

text \<open>
  Claim C7 does not hold of the code where it speaks of infinite items. The author answers
  the wizard's question whether the torch is unique or infinite with \<open>2\<close>, and the draft
  records \<open>isInfinite\<close>; the commit hands the flag to \<^verbatim>\<open>createItem\<close>, whose \<^verbatim>\<open>INSERT\<close> has
  no such column, so the stored row carries no flag. When \<open>bob\<close> then types \<open>take torch\<close> the
  row is moved to his inventory and leaves the room; when \<open>cat\<close> types \<open>take torch\<close> after
  him the answer is that there is no torch to see, and the inventory of \<open>cat\<close> stays
  empty: the torch was not cloned, and there is one row of it, not two.
\<close>

theorem infinite_pickup_is_moved_not_cloned:
  "\<exists>w1 w3 w4 snap.
      torch_chosen = Some w1
    \<and> map_option tid_isInfinite (tempItemDataMap w1 ''u1'') = Some (Some True)
    \<and> torch_authored = Some w3
    \<and> items w3 = [goblin, torch]
    \<and> i_effect_type torch = ITEM \<and> i_room_id torch = Some ''r0'' \<and> \<not> i_is_infinite torch
    \<and> handleInteraction ''s2'' bob ''take torch'' ''c1'' w3
        = Returns \<lparr>handled = True, shouldEmitState = Some snap\<rparr> w4
    \<and> emitted w3 w4 = [(''s2'', GameLog ''You picked up the torch.'' Info None)]
    \<and> items w4 = [goblin, torch\<lparr>i_owner_id := Some ''u2'', i_room_id := None\<rparr>]
    \<and> getRoomItems ''r0'' ''isle'' w4 = Inr [goblin]
    \<and> handleInteraction ''s3'' cat ''take torch'' ''c2'' w4
        = Returns \<lparr>handled = True, shouldEmitState = None\<rparr>
            (emit ''s3'' (GameLog ''You don't see \"torch\" here.'' Error None) w4)
    \<and> getUserInventory ''u3'' ''isle'' w4 = Inr []"
proof -
  have g0: "getUser ''u1'' torch_scene = Some (ann\<lparr>u_state := CREATING_OBJ_SUPPLY_TYPE\<rparr>)"
    by (simp add: getUser_def torch_scene_def ann_def)
  have "users torch_scene = [ann\<lparr>u_state := CREATING_OBJ_SUPPLY_TYPE\<rparr>, bob, cat]"
    "rooms torch_scene = [crash_site]" "items torch_scene = [goblin]"
    "tempItemDataMap torch_scene ''u1'' = Some torch_draft" "animations torch_scene = []"
    by (simp_all add: torch_scene_def)
  note s0 = this
  from torch_step_supply [OF s0] obtain w1 where
    r1: "world_of (handleObjSupplyType ''s1'' (ann\<lparr>u_state := CREATING_OBJ_SUPPLY_TYPE\<rparr>) ''2''
           torch_scene) = Some w1"
    and s1: "users w1 = [ann\<lparr>u_state := CREATING_OBJ_VERB_CONFIRM\<rparr>, bob, cat]"
      "rooms w1 = [crash_site]" "items w1 = [goblin]"
      "tempItemDataMap w1 ''u1'' = Some (torch_draft\<lparr>tid_isInfinite := Some True\<rparr>)"
      "animations w1 = []"
    by blast
  have chosen: "torch_chosen = Some w1"
    by (simp add: torch_chosen_def next_command_def g0 r1)
  have flag: "map_option tid_isInfinite (tempItemDataMap w1 ''u1'') = Some (Some True)"
    by (simp add: s1)
  have g1: "getUser ''u1'' w1 = Some (ann\<lparr>u_state := CREATING_OBJ_VERB_CONFIRM\<rparr>)"
    by (simp add: getUser_def s1 ann_def)
  from torch_step_verb [OF s1] obtain w2 where
    r2: "world_of (handleObjVerbConfirm ''s1'' (ann\<lparr>u_state := CREATING_OBJ_VERB_CONFIRM\<rparr>) ''y'' w1)
           = Some w2"
    and s2: "users w2 = [ann\<lparr>u_state := CREATING_OBJ_SUCCESS_MSG\<rparr>, bob, cat]"
      "rooms w2 = [crash_site]" "items w2 = [goblin]"
      "tempItemDataMap w2 ''u1'' = Some (torch_draft\<lparr>tid_isInfinite := Some True\<rparr>)"
      "animations w2 = []"
    by blast
  have g2: "getUser ''u1'' w2 = Some (ann\<lparr>u_state := CREATING_OBJ_SUCCESS_MSG\<rparr>)"
    by (simp add: getUser_def s2 ann_def)
  from torch_step_commit [OF s2] obtain w3 where
    r3: "world_of (handleObjSuccessMsg ''s1'' (ann\<lparr>u_state := CREATING_OBJ_SUCCESS_MSG\<rparr>) [] ''t1'' w2)
           = Some w3"
    and s3: "users w3 = [ann\<lparr>u_state := CREATING_OBJ_CONFIRM\<rparr>, bob, cat]" "rooms w3 = [crash_site]"
      "items w3 = [goblin, torch]" "animations w3 = []"
    by blast
  have authored: "torch_authored = Some w3"
    by (simp add: torch_authored_def chosen next_command_def g1 r2 g2 r3)
  have row: "i_effect_type torch = ITEM" "i_room_id torch = Some ''r0''" "\<not> i_is_infinite torch"
    by (simp_all add: torch_def)
  have "\<exists>w4 snap. handleInteraction ''s2'' bob ''take torch'' ''c1'' w3
        = Returns \<lparr>handled = True, shouldEmitState = Some snap\<rparr> w4
      \<and> emitted w3 w4 = [(''s2'', GameLog ''You picked up the torch.'' Info None)]
      \<and> users w4 = users w3 \<and> rooms w4 = rooms w3 \<and> animations w4 = animations w3
      \<and> items w4 = [goblin, torch\<lparr>i_owner_id := Some ''u2'', i_room_id := None\<rparr>]"
    by (simp add: handleInteraction_def resolve_item_def interaction_gate_def
        interaction_effect_def interaction_finish_def real_room_def getItemAnimation_def
        Let_def read_defs text_defs torch_defs torch_def s3 store_defs emitted_def)
  then obtain w4 snap where
    r4: "handleInteraction ''s2'' bob ''take torch'' ''c1'' w3
        = Returns \<lparr>handled = True, shouldEmitState = Some snap\<rparr> w4"
    and e4: "emitted w3 w4 = [(''s2'', GameLog ''You picked up the torch.'' Info None)]"
    and s4: "users w4 = users w3" "rooms w4 = rooms w3" "animations w4 = animations w3"
      "items w4 = [goblin, torch\<lparr>i_owner_id := Some ''u2'', i_room_id := None\<rparr>]"
    by blast
  have left: "getRoomItems ''r0'' ''isle'' w4 = Inr [goblin]"
    by (simp add: getRoomItems_def s4 goblin_def torch_def)
  have inv: "getUserInventory ''u3'' ''isle'' w4 = Inr []"
    by (simp add: getUserInventory_def s4 goblin_def torch_def)
  have r5: "handleInteraction ''s3'' cat ''take torch'' ''c2'' w4
        = Returns \<lparr>handled = True, shouldEmitState = None\<rparr>
            (emit ''s3'' (GameLog ''You don't see \"torch\" here.'' Error None) w4)"
    by (simp add: handleInteraction_def resolve_item_def real_room_def
        Let_def read_defs text_defs torch_defs torch_def s3 s4)
  from chosen flag authored s3(3) row r4 e4 s4(4) left inv r5 show ?thesis by blast
qed

subsection \<open>Verb obfuscation: the runs that end\<close>

text \<open>What a run of the loop that does end returns: as many distinct non-space positions
  as had to be hidden.\<close>

lemma obfuscate_loop_result:
  assumes "obfuscate_loop rnd chars n k indices = Some res"
  shows "(chars \<noteq> [] \<or> n \<le> 0) \<and> distinct indices \<and> set indices \<subseteq> hideable chars
           \<and> int (length indices) \<le> max 0 n
         \<longrightarrow> distinct (fst res) \<and> set (fst res) \<subseteq> hideable chars
           \<and> int (length (fst res)) = max 0 n"
proof (rule obfuscate_loop.raw_induct
    [where P = "\<lambda>rnd chars n k indices res.
        (chars \<noteq> [] \<or> n \<le> 0) \<and> distinct indices \<and> set indices \<subseteq> hideable chars
           \<and> int (length indices) \<le> max 0 n
         \<longrightarrow> distinct (fst res) \<and> set (fst res) \<subseteq> hideable chars
           \<and> int (length (fst res)) = max 0 n", OF _ assms], goal_cases)
  case (1 f rnd chars n k indices res)
  show ?case
  proof (intro impI)
    assume inv: "(chars \<noteq> [] \<or> n \<le> 0) \<and> distinct indices \<and> set indices \<subseteq> hideable chars
           \<and> int (length indices) \<le> max 0 n"
    show "distinct (fst res) \<and> set (fst res) \<subseteq> hideable chars \<and> int (length (fst res)) = max 0 n"
    proof (cases "int (length indices) < n")
      case False
      with 1(2) have "res = (indices, k)" by simp
      with inv False show ?thesis by auto
    next
      case True
      then have ne: "chars \<noteq> []" using inv by auto
      define idx where "idx = random_index rnd k (length chars)"
      have idx_lt: "idx < length chars" using ne by (simp add: idx_def random_index_def)
      define indices' where
        "indices' = (if char_at chars idx = Some CHR '' '' then indices else List.insert idx indices)"
      from 1(2) True have call: "f rnd chars n (Suc k) indices' = Some res"
        by (auto simp: Let_def idx_def indices'_def)
      have "distinct indices'" using inv by (simp add: indices'_def)
      moreover have "set indices' \<subseteq> hideable chars"
        using inv idx_lt by (auto simp: indices'_def hideable_def char_at_def)
      moreover have "int (length indices') \<le> max 0 n"
        using True by (auto simp: indices'_def List.insert_def)
      ultimately show ?thesis using 1(1) [OF call] ne by simp
    qed
  qed
qed

lemma foldl_update_length: "length (foldl (\<lambda>cs i. cs[i := c]) xs ixs) = length xs"
  by (induction ixs arbitrary: xs) simp_all

lemma foldl_update_nth:
  "j < length xs \<Longrightarrow>
   foldl (\<lambda>cs i. cs[i := c]) xs ixs ! j = (if j \<in> set ixs then c else xs ! j)"
  by (induction ixs arbitrary: xs) (auto simp: nth_list_update)

text \<open>When \<open>obfuscateText\<close> returns, the result has the length of the text, differs from
  it only at non-space positions, which then hold an underscore, and differs at no more
  than \<open>min(shroudLevel, floor(length / 2))\<close> positions.\<close>

lemma obfuscateText_result:
  assumes "obfuscateText rnd k text shroudLevel = Some (t, k')"
  shows "length t = length text"
    and "i < length text \<Longrightarrow> t ! i \<noteq> text ! i \<Longrightarrow> t ! i = CHR ''_'' \<and> text ! i \<noteq> CHR '' ''"
    and "int (card {i. i < length text \<and> t ! i \<noteq> text ! i})
         \<le> max 0 (min shroudLevel (int (length text div 2)))"
proof -
  define n where "n = min shroudLevel (int (length text div 2))"
  have "\<exists>ixs. t = foldl (\<lambda>cs i. cs[i := CHR ''_'']) text ixs \<and> set ixs \<subseteq> hideable text
           \<and> distinct ixs \<and> int (length ixs) \<le> max 0 n"
  proof (cases "shroudLevel = 0")
    case True
    with assms have "t = text" by (simp add: obfuscateText_def)
    then show ?thesis by (intro exI [of _ "[]"]) simp
  next
    case False
    with assms obtain ixs where loop: "obfuscate_loop rnd text n k [] = Some (ixs, k')"
      and t: "t = foldl (\<lambda>cs i. cs[i := CHR ''_'']) text ixs"
      by (auto simp: obfuscateText_def Let_def n_def split: option.splits)
    have pre: "(text \<noteq> [] \<or> n \<le> 0)" by (auto simp: n_def)
    from obfuscate_loop_result [OF loop] pre
    have "distinct ixs \<and> set ixs \<subseteq> hideable text \<and> int (length ixs) = max 0 n" by simp
    with t show ?thesis by auto
  qed
  then obtain ixs where t: "t = foldl (\<lambda>cs i. cs[i := CHR ''_'']) text ixs"
    and sub: "set ixs \<subseteq> hideable text" and d: "distinct ixs" and len: "int (length ixs) \<le> max 0 n"
    by blast
  show "length t = length text" by (simp add: t foldl_update_length)
  show "t ! i = CHR ''_'' \<and> text ! i \<noteq> CHR '' ''" if "i < length text" "t ! i \<noteq> text ! i"
    using that sub by (auto simp: t foldl_update_nth hideable_def split: if_splits)
  have "{i. i < length text \<and> t ! i \<noteq> text ! i} \<subseteq> set ixs"
    by (auto simp: t foldl_update_nth split: if_splits)
  then have "card {i. i < length text \<and> t ! i \<noteq> text ! i} \<le> card (set ixs)"
    by (simp add: card_mono)
  also have "\<dots> = length ixs" using d by (simp add: distinct_card)
  finally show "int (card {i. i < length text \<and> t ! i \<noteq> text ! i})
         \<le> max 0 (min shroudLevel (int (length text div 2)))"
    using len by (simp add: n_def)
qed

text \<open>A run that ends: with the oracle that returns 0, 1, 2, ... the verb \<open>take\<close> at
  shroud level 2 loses its first two letters after two draws.\<close>

lemma obfuscateText_example:
  "obfuscateText (\<lambda>k. k) 0 ''take'' 2 = Some (''__ke'', 2)"
proof -
  have "obfuscate_loop (\<lambda>k. k) ''take'' 2 0 [] = Some ([1, 0], 2)"
    apply (subst obfuscate_loop.simps, simp add: random_index_def char_at_def)
    apply (subst obfuscate_loop.simps, simp add: random_index_def char_at_def)
    apply (subst obfuscate_loop.simps, simp add: random_index_def char_at_def)
    done
  then show ?thesis by (simp add: obfuscateText_def)
qed

end
